theory Spec2Isabelle
  imports Complex_Main "HOL-Library.Log_Nat" "HOL-Library.AList"
begin

section \<open>The Go runtime, as far as the game server uses it\<close>

subsection \<open>Panics, slices and strings\<close>

text \<open>
  A Go string is a sequence of bytes, here a \<^typ>\<open>string\<close>. A slice is a list; its
  capacity plays no role in indexing: \<^verbatim>\<open>s[i] = v\<close> panics whenever \<^verbatim>\<open>i >= len(s)\<close>.
\<close>

datatype panic = IndexOutOfRange int int | NilDereference

definition set_index :: "'a list \<Rightarrow> nat \<Rightarrow> 'a \<Rightarrow> panic + 'a list" where
  "set_index xs i v =
     (if i < length xs then Inr (xs[i := v]) else Inl (IndexOutOfRange (int i) (int (length xs))))"

text \<open>
  A call either returns, or it never does: the goroutine blocks for ever on a mutex it
  holds itself (\<^verbatim>\<open>sync.RWMutex\<close> is not reentrant), or it panics, which ends the
  process since nothing recovers.
\<close>

datatype failure = Deadlock | Panic panic

definition and_then :: "failure + 'a \<Rightarrow> ('a \<Rightarrow> failure + 'b) \<Rightarrow> failure + 'b" where
  "and_then m f = (case m of Inl e \<Rightarrow> Inl e | Inr x \<Rightarrow> f x)"

text \<open>Reading \<^verbatim>\<open>xs[i]\<close> with an \<^verbatim>\<open>int\<close> index.\<close>

definition index :: "'a list \<Rightarrow> int \<Rightarrow> failure + 'a" where
  "index xs i =
     (if 0 \<le> i \<and> i < int (length xs) then Inr (xs ! nat i)
      else Inl (Panic (IndexOutOfRange i (int (length xs)))))"

definition byte_in :: "char \<Rightarrow> nat \<Rightarrow> nat \<Rightarrow> bool" where
  "byte_in c lo hi = (lo \<le> of_char c \<and> of_char c \<le> hi)"

text \<open>
  \<^verbatim>\<open>for i := range word\<close> visits the byte offset of every UTF-8 sequence of the string;
  a byte that starts no well-formed sequence counts as a sequence of width one.
\<close>

fun rune_width :: "string \<Rightarrow> nat" where
  "rune_width [] = 0"
| "rune_width (b0 # bs) =
     (if byte_in b0 0x00 0x7F then 1
      else if byte_in b0 0xC2 0xDF then
        (case bs of b1 # _ \<Rightarrow> if byte_in b1 0x80 0xBF then 2 else 1 | _ \<Rightarrow> 1)
      else if byte_in b0 0xE0 0xEF then
        (case bs of b1 # b2 # _ \<Rightarrow>
           if byte_in b1 (if b0 = char_of (0xE0::nat) then 0xA0 else 0x80)
                         (if b0 = char_of (0xED::nat) then 0x9F else 0xBF)
              \<and> byte_in b2 0x80 0xBF
           then 3 else 1
         | _ \<Rightarrow> 1)
      else if byte_in b0 0xF0 0xF4 then
        (case bs of b1 # b2 # b3 # _ \<Rightarrow>
           if byte_in b1 (if b0 = char_of (0xF0::nat) then 0x90 else 0x80)
                         (if b0 = char_of (0xF4::nat) then 0x8F else 0xBF)
              \<and> byte_in b2 0x80 0xBF \<and> byte_in b3 0x80 0xBF
           then 4 else 1
         | _ \<Rightarrow> 1)
      else 1)"

fun range_from :: "nat \<Rightarrow> nat \<Rightarrow> string \<Rightarrow> nat list" where
  "range_from i k [] = []"
| "range_from i 0 (c # cs) = i # range_from (Suc i) (rune_width (c # cs) - 1) cs"
| "range_from i (Suc k) (c # cs) = range_from (Suc i) k cs"

definition range_indices :: "string \<Rightarrow> nat list" where
  "range_indices w = range_from 0 0 w"

text \<open>\<^verbatim>\<open>strings.Join(elems, sep)\<close>.\<close>

fun Join :: "string list \<Rightarrow> string \<Rightarrow> string" where
  "Join [] sep = []"
| "Join [x] sep = x"
| "Join (x # y # ys) sep = x @ sep @ Join (y # ys) sep"

text \<open>
  \<^verbatim>\<open>strings.ToLower\<close> and \<^verbatim>\<open>strings.TrimSpace\<close> belong to Go's standard library, not
  to this repository, and follow the tables of Unicode. The handlers that call them take
  the package as a parameter \<open>strings\<close>, so that \<^verbatim>\<open>strings.ToLower(s)\<close> reads
  \<open>ToLower strings s\<close>.
\<close>

record strings_package =
  ToLower :: "string \<Rightarrow> string"
  TrimSpace :: "string \<Rightarrow> string"

text \<open>
  On a string of ASCII bytes the two functions take their fast paths: \<^verbatim>\<open>ToLower\<close> adds
  \<^verbatim>\<open>'a' - 'A'\<close> to the bytes \<open>A\<close> to \<open>Z\<close>, and \<^verbatim>\<open>TrimSpace\<close> cuts the white space of
  ASCII (tab, line feed, vertical tab, form feed, carriage return, space) from both ends.
\<close>

definition is_ascii :: "string \<Rightarrow> bool" where
  "is_ascii s = list_all (\<lambda>c. of_char c < (0x80::nat)) s"

definition lower_byte :: "char \<Rightarrow> char" where
  "lower_byte c = (if byte_in c 0x41 0x5A then char_of (of_char c + (32::nat)) else c)"

definition ToLower_ascii :: "string \<Rightarrow> string" where
  "ToLower_ascii s = map lower_byte s"

definition is_space :: "char \<Rightarrow> bool" where
  "is_space c = (byte_in c 0x09 0x0D \<or> of_char c = (0x20::nat))"

definition TrimSpace_ascii :: "string \<Rightarrow> string" where
  "TrimSpace_ascii s = rev (dropWhile is_space (rev (dropWhile is_space s)))"

text \<open>
  A package that does this on every string; it is Go's package as far as strings of ASCII
  bytes go, and stands for it where a handler is run on such strings.
\<close>

definition ascii_strings :: strings_package where
  "ascii_strings = \<lparr>ToLower = ToLower_ascii, TrimSpace = TrimSpace_ascii\<rparr>"

subsection \<open>Integers, floating point and time\<close>

text \<open>
  Go's \<^verbatim>\<open>int\<close> division truncates towards zero.
\<close>

definition go_quot :: "int \<Rightarrow> int \<Rightarrow> int" where
  "go_quot a b = sgn a * sgn b * (\<bar>a\<bar> div \<bar>b\<bar>)"

definition go_rem :: "int \<Rightarrow> int \<Rightarrow> int" where
  "go_rem a b = a - b * go_quot a b"

text \<open>
  A finite floating-point number is the rational it denotes. Every arithmetic operation
  and every conversion rounds its exact result to the nearest number with \<open>p\<close>
  significant bits, ties to the even significand (\<open>p = 24\<close> for \<^verbatim>\<open>float32\<close>,
  \<open>p = 53\<close> for \<^verbatim>\<open>float64\<close>). \<open>ilog2 q\<close> is the binary exponent \<open>e\<close> of a positive
  \<open>q\<close>: \<open>2\<^sup>e \<le> q < 2\<^sup>e\<^sup>+\<^sup>1\<close>. The magnitudes that occur in the server stay far from
  the exponent limits of both formats, so no overflow and no subnormal rounding is
  modelled.
\<close>

definition ilog2 :: "rat \<Rightarrow> int" where
  "ilog2 q =
     (if 1 \<le> q then bitlen \<lfloor>q\<rfloor> - 1
      else (let k = bitlen \<lfloor>1 / q\<rfloor> - 1
            in if q * 2 ^ nat k = 1 then - k else - k - 1))"

definition round_half_even :: "rat \<Rightarrow> int" where
  "round_half_even m =
     (let n = \<lfloor>m\<rfloor>; f = m - of_int n
      in if f < 1 / 2 then n else if 1 / 2 < f then n + 1 else if even n then n else n + 1)"

definition rne :: "nat \<Rightarrow> rat \<Rightarrow> rat" where
  "rne p q =
     (if q = 0 then 0
      else (let a = \<bar>q\<bar>; u = 2 powi (ilog2 a - int p + 1)
            in sgn q * of_int (round_half_even (a / u)) * u))"

definition f32 :: "rat \<Rightarrow> rat" where
  "f32 q = rne 24 q"

definition f64 :: "rat \<Rightarrow> rat" where
  "f64 q = rne 53 q"

definition int64_min :: int where
  "int64_min = - (2 ^ 63)"

text \<open>
  \<^verbatim>\<open>int(f)\<close> cuts the fraction off. Where the value does not fit the 64-bit \<^verbatim>\<open>int\<close>
  the language leaves the result to the implementation; the model takes what the
  amd64 conversion instruction delivers there, the least \<^verbatim>\<open>int\<close>.
\<close>

definition float_to_int :: "rat \<Rightarrow> int" where
  "float_to_int v =
     (let z = (if 0 \<le> v then \<lfloor>v\<rfloor> else \<lceil>v\<rceil>)
      in if int64_min \<le> z \<and> z < 2 ^ 63 then z else int64_min)"

text \<open>
  A \<^verbatim>\<open>time.Duration\<close> is a count of nanoseconds. \<^verbatim>\<open>Seconds\<close> is, as in package
  \<^verbatim>\<open>time\<close>, \<^verbatim>\<open>float64(d / Second) + float64(d % Second) / 1e9\<close>.
\<close>

definition Second :: int where
  "Second = 1000000000"

definition Seconds :: "int \<Rightarrow> rat" where
  "Seconds d =
     (let sec = go_quot d Second; nsec = go_rem d Second
      in f64 (f64 (of_int sec) + f64 (f64 (of_int nsec) / 1000000000)))"

definition Milliseconds :: "int \<Rightarrow> int" where
  "Milliseconds d = go_quot d 1000000"

text \<open>
  A \<^verbatim>\<open>time.Time\<close> is a count of nanoseconds since the Unix epoch; the zero
  \<^verbatim>\<open>time.Time{}\<close> is the first instant of year 1. \<^verbatim>\<open>time.Since\<close> saturates at the ends
  of the \<^verbatim>\<open>Duration\<close> range.
\<close>

definition zero_time :: int where
  "zero_time = - 62135596800000000000"

definition maxDuration :: int where
  "maxDuration = 2 ^ 63 - 1"

definition minDuration :: int where
  "minDuration = - (2 ^ 63)"

definition Since :: "int \<Rightarrow> int \<Rightarrow> int" where
  "Since now t =
     (let d = now - t
      in if maxDuration < d then maxDuration else if d < minDuration then minDuration else d)"

section \<open>Package utils: masking a word\<close>

text \<open>
  \<^verbatim>\<open>GetMaskedWord\<close> makes \<^verbatim>\<open>masked\<close> with length 0 (and capacity \<^verbatim>\<open>len(word)\<close>), then
  assigns \<^verbatim>\<open>masked[i]\<close> for every index of the range loop, and joins with a space.
\<close>

fun mask_loop :: "string \<Rightarrow> nat list \<Rightarrow> string list \<Rightarrow> panic + string list" where
  "mask_loop word [] masked = Inr masked"
| "mask_loop word (i # is) masked =
     (case set_index masked i (if word ! i = CHR '' '' then '' '' else ''_'') of
        Inl e \<Rightarrow> Inl e
      | Inr masked' \<Rightarrow> mask_loop word is masked')"

definition GetMaskedWord :: "string \<Rightarrow> panic + string" where
  "GetMaskedWord word =
     (if word = [] then Inr []
      else (case mask_loop word (range_indices word) [] of
              Inl e \<Rightarrow> Inl e
            | Inr masked \<Rightarrow> Inr (Join masked '' '')))"

section \<open>Package game: points for a guess\<close>

datatype WordDifficulty = DifficultyEasy | DifficultyMedium | DifficultyHard

text \<open>
  The three \<^verbatim>\<open>switch\<close> statements of \<^verbatim>\<open>CalculateGuessPoints\<close>. A \<^verbatim>\<open>switch\<close> without
  \<^verbatim>\<open>default\<close> leaves the variable at its zero value when no case applies, as the
  speed multiplier's has none.
\<close>

definition basePoints_of :: "WordDifficulty \<Rightarrow> int" where
  "basePoints_of d = (case d of DifficultyEasy \<Rightarrow> 100 | DifficultyMedium \<Rightarrow> 150 | DifficultyHard \<Rightarrow> 200)"

definition speedMultiplier_of :: "rat \<Rightarrow> rat" where
  "speedMultiplier_of t =
     (if 0 \<le> t \<and> t < 10 then f32 (3 / 2)
      else if 10 \<le> t \<and> t < 30 then f32 (5 / 4)
      else if 30 \<le> t \<and> t < 60 then f32 1
      else if 60 < t then f32 (3 / 4)
      else 0)"

definition posMultiplier_of :: "int \<Rightarrow> rat" where
  "posMultiplier_of p =
     (if p = 1 then f32 1 else if p = 2 then f32 (4 / 5) else if p = 3 then f32 (3 / 5) else f32 (2 / 5))"

definition CalculateGuessPoints :: "int \<Rightarrow> int \<Rightarrow> WordDifficulty \<Rightarrow> int" where
  "CalculateGuessPoints timeTaken position wordDifficulty =
     (let t = Seconds timeTaken;
          p = position;
          basePoints = basePoints_of wordDifficulty;
          speedMultiplier = speedMultiplier_of t;
          posMultiplier = posMultiplier_of p
      in float_to_int (f32 (f32 (f32 (of_int basePoints) * speedMultiplier) * posMultiplier)))"

section \<open>Package internal: the canvas grid\<close>

definition CanvasWidth :: int where
  "CanvasWidth = 35"

definition CanvasHeight :: int where
  "CanvasHeight = 20"

text \<open>
  \<^verbatim>\<open>int(math.Floor(float64(x) * float64(cells) / float64(client)))\<close>: the product and the
  quotient are rounded one after the other. Dividing by a zero \<^verbatim>\<open>client\<close> gives an
  infinity or a NaN, which \<^verbatim>\<open>int\<close> converts as it does any value out of range.
\<close>

definition scale_to_grid :: "int \<Rightarrow> int \<Rightarrow> int \<Rightarrow> int" where
  "scale_to_grid x cells client =
     (let fx = f64 (of_int x); fs = f64 (of_int cells); fc = f64 (of_int client)
      in if fc = 0 then int64_min
         else float_to_int (of_int \<lfloor>f64 (f64 (fx * fs) / fc)\<rfloor>))"

definition clamp_grid :: "int \<Rightarrow> int \<Rightarrow> int" where
  "clamp_grid g cells = (if g < 0 then 0 else if cells \<le> g then cells - 1 else g)"

definition NormalizeCoordinates :: "int \<Rightarrow> int \<Rightarrow> int \<Rightarrow> int \<Rightarrow> int \<times> int" where
  "NormalizeCoordinates x y clientCanvasWidth clientCanvasHeight =
     (let gridX = scale_to_grid x CanvasWidth clientCanvasWidth;
          gridY = scale_to_grid y CanvasHeight clientCanvasHeight;
          gridX = clamp_grid gridX CanvasWidth;
          gridY = clamp_grid gridY CanvasHeight
      in (gridX, gridY))"

section \<open>Package internal: players and rooms\<close>

datatype GamePhase = PhaseWaiting | PhaseDrawing | PhaseRevealing | PhaseEnded | PhaseLobby

datatype PixelMessageType = BatchPlace | PixelPlace | ErasePixel | BatchErase | OtherType string

fun type_string :: "PixelMessageType \<Rightarrow> string" where
  "type_string BatchPlace = ''batch_place''"
| "type_string PixelPlace = ''pixel''"
| "type_string ErasePixel = ''erase''"
| "type_string BatchErase = ''batch_erase''"
| "type_string (OtherType s) = s"

record GridPosition =
  GridX :: int
  GridY :: int

record PixelMessage =
  pm_Type :: PixelMessageType
  pm_X :: "int option"
  pm_Y :: "int option"
  pm_Color :: string
  pm_Timestamp :: int
  pm_Pixels :: "GridPosition list"

text \<open>
  A player. The connection is reduced to whether a write on it succeeds; the pointer to
  the room and the write lock are left out. A player is identified by its \<^verbatim>\<open>Id\<close>: where
  the code compares two player pointers, the model compares the two \<^verbatim>\<open>Id\<close>s.
\<close>

record Player =
  p_Id :: string
  p_Conn :: bool
  p_Username :: string
  p_Score :: int
  p_CanvasHeight :: int
  p_CanvasWidth :: int
  p_IsReady :: bool
  p_HasGuessed :: bool
  p_LastGuessTime :: int
  p_IsConnected :: bool
  p_JoinedAt :: int
  p_CanDraw :: bool
  p_TotalGuesses :: int
  p_CorrectGuesses :: int
  p_TimesDrawn :: int

text \<open>
  The timer's context and its cancel function belong to the timer goroutine, which is
  not part of the state: cancelling shows in \<^verbatim>\<open>IsActive\<close> only.
\<close>

record GameTimer =
  t_StartTime :: int
  t_Duration :: int
  t_TimeRemaining :: int
  t_IsActive :: bool

record PlayerGuess =
  pg_PlayerID :: string
  pg_Username :: string
  pg_GuessTime :: int
  pg_IsCorrect :: bool

record RoundStats =
  rs_RoundNumber :: int
  rs_DrawerId :: string
  rs_Word :: string
  rs_CorrectGuessers :: "PlayerGuess list"
  rs_TotalGuesses :: int
  rs_StartTime :: int
  rs_EndTime :: int

text \<open>
  What leaves a function besides its result: the messages it hands to connections, and
  the goroutines it starts with \<^verbatim>\<open>go\<close>. A message is recorded with its type and the
  players a write is attempted on, in the order of the attempts; payloads are not
  modelled. A goroutine started with \<^verbatim>\<open>go\<close> runs after the function that started it
  has gone on; it is recorded, and \<open>run_task\<close> below says what it does when it runs.
\<close>

datatype Event = Emit string "string list"

datatype Task =
    GoSafeBroadcastToRoom string
  | GoSafeBroadcastToRoomExcept string "string option"
  | GoSafeBroadcastToRoomExceptCurrent string
  | GoHandleWordSelection string string
  | GoStartDrawingPhase
  | GoStartWaitingPhase
  | GoEndGame
  | GoResetRoomToLobby

text \<open>
  A room. The Go maps \<^verbatim>\<open>Players\<close> and \<^verbatim>\<open>PlayersReady\<close> are association lists, whose
  order is the order in which a \<^verbatim>\<open>range\<close> loop visits the map (Go leaves it open; no
  result below depends on it). \<^verbatim>\<open>Current\<close> is the \<^verbatim>\<open>Id\<close> of the player the pointer
  refers to, \<open>None\<close> for \<^verbatim>\<open>nil\<close>. \<open>r_Mu\<close> says whether the room's mutex is held.
  \<open>r_Outbox\<close> and \<open>r_Spawned\<close> collect the events and the started goroutines.
\<close>

record Room =
  r_Id :: string
  r_Players :: "(string \<times> Player) list"
  r_Phase :: GamePhase
  r_Current :: "string option"
  r_CurrentIndex :: int
  r_Word :: string
  r_WordChoices :: "string list"
  r_RoundNumber :: int
  r_MaxRounds :: int
  r_RoundStats :: "RoundStats list"
  r_Timer :: "GameTimer option"
  r_PlayerOrder :: "string list"
  r_PlayersReady :: "(string \<times> bool) list"
  r_CorrectGuessers :: "PlayerGuess list"
  r_HasGameStarted :: bool
  r_CanvasState :: "PixelMessage list"
  r_Mu :: bool
  r_Outbox :: "Event list"
  r_Spawned :: "Task list"

definition WaitingPhaseDuration :: int where
  "WaitingPhaseDuration = 15 * Second"

definition DrawingPhaseDuration :: int where
  "DrawingPhaseDuration = 120 * Second"

definition RevealingPhaseDuration :: int where
  "RevealingPhaseDuration = 8 * Second"

definition MaxPlayersPerRoom :: int where
  "MaxPlayersPerRoom = 8"


subsection \<open>The mutex, messages and goroutines\<close>

text \<open>
  \<^verbatim>\<open>Lock\<close> on a mutex that is held never returns. A read lock is taken and released
  like the write lock: no function here takes one inside another.
\<close>

definition Lock :: "Room \<Rightarrow> failure + Room" where
  "Lock room = (if r_Mu room then Inl Deadlock else Inr (room\<lparr>r_Mu := True\<rparr>))"

definition Unlock :: "Room \<Rightarrow> Room" where
  "Unlock room = room\<lparr>r_Mu := False\<rparr>"

definition emit :: "string \<Rightarrow> string list \<Rightarrow> Room \<Rightarrow> Room" where
  "emit ty ids room = room\<lparr>r_Outbox := r_Outbox room @ [Emit ty ids]\<rparr>"

definition spawn :: "Task \<Rightarrow> Room \<Rightarrow> Room" where
  "spawn t room = room\<lparr>r_Spawned := r_Spawned room @ [t]\<rparr>"

text \<open>\<^verbatim>\<open>for _, p := range room.Players { ... }\<close> changing every player.\<close>

definition for_each_player :: "(Player \<Rightarrow> Player) \<Rightarrow> Room \<Rightarrow> Room" where
  "for_each_player f room = room\<lparr>r_Players := map (\<lambda>(k, p). (k, f p)) (r_Players room)\<rparr>"

text \<open>A change of one player through a pointer to it.\<close>

definition update_player :: "string \<Rightarrow> (Player \<Rightarrow> Player) \<Rightarrow> Room \<Rightarrow> Room" where
  "update_player pid f room = room\<lparr>r_Players := AList.map_entry pid f (r_Players room)\<rparr>"

text \<open>
  \<^verbatim>\<open>SafeWriteJSON\<close> succeeds when the connection takes the write. The connection of a
  player that has left the map has been closed.
\<close>

definition write_ok :: "string \<Rightarrow> Room \<Rightarrow> bool" where
  "write_ok pid room = (case map_of (r_Players room) pid of None \<Rightarrow> False | Some p \<Rightarrow> p_Conn p)"

definition SafeBroadcastToRoom :: "string \<Rightarrow> Room \<Rightarrow> failure + Room" where
  "SafeBroadcastToRoom ty room =
     and_then (Lock room) (\<lambda>room.
       let players = [p_Id p. (k, p) \<leftarrow> r_Players room, p_IsConnected p];
           room = Unlock room
       in Inr (emit ty players room))"

definition SafeBroadcastToRoomExcept :: "string \<Rightarrow> string option \<Rightarrow> Room \<Rightarrow> failure + Room" where
  "SafeBroadcastToRoomExcept ty exclude room =
     and_then (Lock room) (\<lambda>room.
       let players = [p_Id p. (k, p) \<leftarrow> r_Players room, p_IsConnected p];
           room = Unlock room
       in Inr (emit ty [pid. pid \<leftarrow> players, exclude \<noteq> Some pid] room))"

subsection \<open>Timers\<close>

definition CancelPhaseTimer :: "Room \<Rightarrow> failure + Room" where
  "CancelPhaseTimer room =
     and_then (Lock room) (\<lambda>room.
       case r_Timer room of
         None \<Rightarrow> Inr (Unlock room)
       | Some timer \<Rightarrow>
           if \<not> t_IsActive timer then Inr (Unlock room)
           else
             let room = room\<lparr>r_Timer := Some (timer\<lparr>t_IsActive := False, t_TimeRemaining := 0\<rparr>)\<rparr>;
                 room = Unlock room
             in SafeBroadcastToRoom ''timer_update'' room)"

text \<open>
  \<^verbatim>\<open>StartPhaseTimer\<close> up to the start of its goroutine. What the goroutine does when the
  time is over is the callback, given for each phase below as a function of its own.
\<close>

definition StartPhaseTimer :: "int \<Rightarrow> int \<Rightarrow> Room \<Rightarrow> failure + Room" where
  "StartPhaseTimer now duration room =
     and_then (Lock room) (\<lambda>room.
       let room = Unlock room in
       and_then (CancelPhaseTimer room) (\<lambda>room.
         and_then (Lock room) (\<lambda>room.
           let room = room\<lparr>r_Timer := Some \<lparr>t_StartTime = now, t_Duration = duration,
                                             t_TimeRemaining = 0, t_IsActive = True\<rparr>\<rparr>
           in Inr (Unlock room))))"

definition BroadcastTimerUpdate :: "int \<Rightarrow> Room \<Rightarrow> failure + Room" where
  "BroadcastTimerUpdate now room =
     and_then (Lock room) (\<lambda>room.
       case r_Timer room of
         None \<Rightarrow> Inr (Unlock room)
       | Some timer \<Rightarrow>
           if \<not> t_IsActive timer then Inr (Unlock room)
           else
             let remaining = max (t_Duration timer - Since now (t_StartTime timer)) 0;
                 room = room\<lparr>r_Timer := Some (timer\<lparr>t_TimeRemaining := remaining\<rparr>)\<rparr>;
                 room = Unlock room
             in SafeBroadcastToRoom ''timer_update'' room)"

section \<open>Package utils: the drawing order\<close>

definition UpdatePlayerOrder :: "Room \<Rightarrow> failure + Room" where
  "UpdatePlayerOrder room =
     and_then (Lock room) (\<lambda>room.
       let room = room\<lparr>r_PlayerOrder := [p_Id p. (k, p) \<leftarrow> r_Players room, p_IsConnected p]\<rparr>;
           room = (if int (length (r_PlayerOrder room)) \<le> r_CurrentIndex room
                   then room\<lparr>r_CurrentIndex := 0\<rparr> else room);
           room = (case r_Current room of
                     None \<Rightarrow> room
                   | Some current \<Rightarrow>
                       if current \<in> set (r_PlayerOrder room) then room
                       else room\<lparr>r_Current := None, r_CurrentIndex := 0\<rparr>)
       in Inr (Unlock room))"

text \<open>
  \<^verbatim>\<open>ValidateGameState\<close> changes nothing; its verdict is only logged by its callers. Every
  value of \<open>GamePhase\<close> is one of the five phases its third check lets pass.
\<close>

definition ValidateGameState :: "int \<Rightarrow> Room \<Rightarrow> failure + bool \<times> Room" where
  "ValidateGameState now room =
     and_then (Lock room) (\<lambda>room.
       if r_CurrentIndex room < 0 \<or> int (length (r_PlayerOrder room)) \<le> r_CurrentIndex room
       then Inr (False, Unlock room)
       else if (case r_Current room of
                  None \<Rightarrow> False
                | Some current \<Rightarrow>
                    map_of (r_Players room) current = None
                    \<or> r_PlayerOrder room ! nat (r_CurrentIndex room) \<noteq> current)
       then Inr (False, Unlock room)
       else if (case r_Timer room of
                  None \<Rightarrow> False
                | Some timer \<Rightarrow>
                    t_Duration timer - Since now (t_StartTime timer) < 0 \<and> t_IsActive timer)
       then Inr (False, Unlock room)
       else Inr (True, Unlock room))"

section \<open>Package game: the phases of a round\<close>

text \<open>
  \<^verbatim>\<open>CalculateFinalResults\<close> takes the lock, computes the payload of \<^verbatim>\<open>game_ended\<close> and
  releases the lock.
\<close>

definition CalculateFinalResults :: "Room \<Rightarrow> failure + Room" where
  "CalculateFinalResults room = and_then (Lock room) (\<lambda>room. Inr (Unlock room))"

definition EndGame :: "int \<Rightarrow> Room \<Rightarrow> failure + Room" where
  "EndGame now room =
     and_then (Lock room) (\<lambda>room.
       let room = room\<lparr>r_Phase := PhaseEnded\<rparr> in
       and_then (CancelPhaseTimer room) (\<lambda>room.
         let room = Unlock room in
         and_then (CalculateFinalResults room) (\<lambda>room.
           and_then (SafeBroadcastToRoom ''game_ended'' room) (\<lambda>room.
             StartPhaseTimer now (30 * Second) room))))"

definition ResetRoundState :: "Player \<Rightarrow> Player" where
  "ResetRoundState p = p\<lparr>p_HasGuessed := False, p_CanDraw := False, p_LastGuessTime := zero_time\<rparr>"

definition StartWaitingPhase :: "int \<Rightarrow> Room \<Rightarrow> failure + Room" where
  "StartWaitingPhase now room =
     and_then (Lock room) (\<lambda>room.
       let room = room\<lparr>r_Phase := PhaseWaiting\<rparr>;
           room = (if int (length (r_PlayerOrder room)) \<le> r_CurrentIndex room
                   then room\<lparr>r_CurrentIndex := 0\<rparr> else room)
       in if r_PlayerOrder room = [] then Inr (Unlock room)
          else
            and_then (index (r_PlayerOrder room) (r_CurrentIndex room)) (\<lambda>playerID.
              case map_of (r_Players room) playerID of
                None \<Rightarrow> Inr (Unlock room)
              | Some currentDrawer \<Rightarrow>
                  let room = room\<lparr>r_Current := Some (p_Id currentDrawer)\<rparr>;
                      room = for_each_player ResetRoundState room;
                      room = room\<lparr>r_CorrectGuessers := [], r_CanvasState := []\<rparr>;
                      room = Unlock room
                  in and_then (SafeBroadcastToRoom ''waiting_phase'' room) (\<lambda>room.
                       StartPhaseTimer now (15 * Second) room)))"

text \<open>
  \<^verbatim>\<open>StartWordSelection\<close>; \<open>words\<close> is what \<^verbatim>\<open>GenerateWordChoices\<close> draws from the word
  lists.
\<close>

definition StartWordSelection :: "int \<Rightarrow> string list \<Rightarrow> Room \<Rightarrow> failure + Room" where
  "StartWordSelection now words room =
     and_then (Lock room) (\<lambda>room.
       case r_Current room of
         None \<Rightarrow> Inr (Unlock room)
       | Some currentDrawer \<Rightarrow>
           let room = room\<lparr>r_WordChoices := words\<rparr>;
               room = Unlock room;
               room = emit ''word_selection'' [currentDrawer] room
           in if \<not> write_ok currentDrawer room
              then and_then (index words 0) (\<lambda>word.
                     Inr (spawn (GoHandleWordSelection currentDrawer word) room))
              else
                let room = spawn (GoSafeBroadcastToRoomExcept ''waiting_for_word'' (Some currentDrawer)) room
                in StartPhaseTimer now (15 * Second) room)"

text \<open>
  The callback of the selection timer; \<open>currentDrawer\<close> is the drawer the closure
  caught when the timer was started.
\<close>

definition SelectionTimerExpired :: "string \<Rightarrow> Room \<Rightarrow> failure + Room" where
  "SelectionTimerExpired currentDrawer room =
     and_then (Lock room) (\<lambda>room.
       let alreadyChosen = (r_Word room \<noteq> []);
           choicesCopy = r_WordChoices room;
           room = Unlock room
       in if alreadyChosen then Inr room
          else (case choicesCopy of
                  [] \<Rightarrow> Inr room
                | autoWord # _ \<Rightarrow> Inr (spawn (GoHandleWordSelection currentDrawer autoWord) room)))"

definition HandleWordSelection :: "string \<Rightarrow> string \<Rightarrow> Room \<Rightarrow> failure + Room" where
  "HandleWordSelection player selectedWord room =
     and_then (Lock room) (\<lambda>room.
       if r_Current room \<noteq> Some player then Inr (Unlock room)
       else if r_Word room \<noteq> [] then Inr (Unlock room)
       else if selectedWord \<notin> set (r_WordChoices room) then Inr (Unlock room)
       else
         let room = room\<lparr>r_Word := selectedWord, r_WordChoices := []\<rparr>;
             room = Unlock room
         in and_then (CancelPhaseTimer room) (\<lambda>room. Inr (spawn GoStartDrawingPhase room)))"

definition StartDrawingPhase :: "int \<Rightarrow> Room \<Rightarrow> failure + Room" where
  "StartDrawingPhase now room =
     and_then (Lock room) (\<lambda>room.
       case r_Current room of
         None \<Rightarrow> Inr (Unlock room)
       | Some drawer \<Rightarrow>
           if r_Word room = [] then Inr (Unlock room)
           else
             let room = room\<lparr>r_Phase := PhaseDrawing\<rparr>;
                 room = update_player drawer (\<lambda>p. p\<lparr>p_CanDraw := True\<rparr>) room;
                 room = room\<lparr>r_CorrectGuessers := []\<rparr>;
                 room = for_each_player (\<lambda>p. p\<lparr>p_HasGuessed := False\<rparr>) room
             in (case GetMaskedWord (r_Word room) of
                   Inl e \<Rightarrow> Inl (Panic e)
                 | Inr masked \<Rightarrow>
                     let room = Unlock room in
                     and_then (StartPhaseTimer now DrawingPhaseDuration room) (\<lambda>room.
                       let room = spawn (GoSafeBroadcastToRoomExcept ''drawing_phase'' (Some drawer)) room
                       in Inr (emit ''drawing_phase'' [drawer] room))))"

definition StartRevealingPhase :: "int \<Rightarrow> Room \<Rightarrow> failure + Room" where
  "StartRevealingPhase now room =
     and_then (Lock room) (\<lambda>room.
       let room = room\<lparr>r_Phase := PhaseRevealing\<rparr> in
       and_then (CancelPhaseTimer room) (\<lambda>room.
         let room = for_each_player (\<lambda>p. p\<lparr>p_CanDraw := False\<rparr>) room;
             rs = \<lparr>rs_RoundNumber = r_RoundNumber room,
                   rs_DrawerId = (case r_Current room of None \<Rightarrow> [] | Some current \<Rightarrow> current),
                   rs_Word = r_Word room,
                   rs_CorrectGuessers = r_CorrectGuessers room,
                   rs_TotalGuesses = int (length (r_CorrectGuessers room)),
                   rs_StartTime = (case r_Timer room of None \<Rightarrow> zero_time | Some timer \<Rightarrow> t_StartTime timer),
                   rs_EndTime = now\<rparr>;
             room = room\<lparr>r_RoundStats := r_RoundStats room @ [rs]\<rparr>
         in and_then
              (if r_PlayerOrder room = [] then Inr []
               else index (r_PlayerOrder room)
                      (go_rem (r_CurrentIndex room + 1) (int (length (r_PlayerOrder room)))))
              (\<lambda>nextID.
                 let room = Unlock room in
                 and_then (SafeBroadcastToRoom ''round_end'' room) (\<lambda>room.
                   StartPhaseTimer now (8 * Second) room))))"

definition NextRound :: "int \<Rightarrow> Room \<Rightarrow> failure + Room" where
  "NextRound now room =
     and_then (UpdatePlayerOrder room) (\<lambda>room.
       and_then (Lock room) (\<lambda>room.
         if r_PlayerOrder room = [] then Inr (spawn GoEndGame (Unlock room))
         else
           let room = room\<lparr>r_CurrentIndex :=
                        go_rem (r_CurrentIndex room + 1) (int (length (r_PlayerOrder room)))\<rparr>;
               room = room\<lparr>r_Word := []\<rparr>;
               wrapped = (r_CurrentIndex room = 0);
               room = (if wrapped then room\<lparr>r_RoundNumber := r_RoundNumber room + 1\<rparr> else room)
           in if wrapped \<and> r_MaxRounds room < r_RoundNumber room
              then Inr (spawn GoEndGame (Unlock room))
              else
                and_then (index (r_PlayerOrder room) (r_CurrentIndex room)) (\<lambda>nextPlayerID.
                  let room = room\<lparr>r_Current := map_option p_Id (map_of (r_Players room) nextPlayerID)\<rparr>;
                      room = Unlock room
                  in and_then (ValidateGameState now room) (\<lambda>(valid, room).
                       and_then (Lock room) (\<lambda>room.
                         Inr (spawn GoStartWaitingPhase (Unlock room)))))))"

text \<open>The callback of the reveal timer.\<close>

definition RevealTimerExpired :: "int \<Rightarrow> Room \<Rightarrow> failure + Room" where
  "RevealTimerExpired now room =
     and_then (Lock room) (\<lambda>room.
       let shouldEnd = (r_MaxRounds room < r_RoundNumber room
                        \<or> (r_RoundNumber room = r_MaxRounds room
                            \<and> r_CurrentIndex room = int (length (r_PlayerOrder room)) - 1));
           room = Unlock room
       in if shouldEnd then EndGame now room else NextRound now room)"

definition HasEveryoneGuessed :: "Room \<Rightarrow> bool" where
  "HasEveryoneGuessed room =
     list_all (\<lambda>(k, player). \<not> (p_IsConnected player \<and> Some (p_Id player) \<noteq> r_Current room
                                  \<and> \<not> p_HasGuessed player))
       (r_Players room)"

text \<open>The callback of the drawing timer.\<close>

definition DrawingTimerExpired :: "int \<Rightarrow> Room \<Rightarrow> failure + Room" where
  "DrawingTimerExpired now room =
     and_then (Lock room) (\<lambda>room.
       let allGuessed = HasEveryoneGuessed room;
           room = Unlock room
       in if allGuessed then StartRevealingPhase now room else NextRound now room)"

section \<open>Package game: guesses\<close>

definition difficulty_of :: "string \<Rightarrow> WordDifficulty" where
  "difficulty_of word =
     (let n = int (length word)
      in if 3 \<le> n \<and> n \<le> 5 then DifficultyEasy
         else if 5 < n \<and> n \<le> 8 then DifficultyMedium
         else if 8 < n then DifficultyHard else DifficultyEasy)"

text \<open>
  The loop of \<^verbatim>\<open>HandleGuessEnhanced\<close> over the players: everyone but the drawer who is
  connected has guessed.
\<close>

definition allGuessed_of :: "Room \<Rightarrow> bool" where
  "allGuessed_of room =
     list_all (\<lambda>(k, p). Some (p_Id p) = r_Current room \<or> \<not> (p_IsConnected p \<and> \<not> p_HasGuessed p))
       (r_Players room)"

text \<open>
  The two paths of \<^verbatim>\<open>HandleGuessEnhanced\<close> behind its comparison, both entered with
  the lock held: the path of an incorrect guess, and the path of a correct one.
\<close>

definition incorrect_guess_path :: "string \<Rightarrow> Room \<Rightarrow> failure + Room" where
  "incorrect_guess_path player room =
     (let room = update_player player (\<lambda>p. p\<lparr>p_TotalGuesses := p_TotalGuesses p + 1\<rparr>) room;
          room = Unlock room
      in Inr (spawn (GoSafeBroadcastToRoom ''guess_message'') room))"

definition correct_guess_path :: "int \<Rightarrow> string \<Rightarrow> Player \<Rightarrow> Room \<Rightarrow> failure + Room" where
  "correct_guess_path now player sender room =
     (let startTime = (case r_Timer room of None \<Rightarrow> zero_time | Some timer \<Rightarrow> t_StartTime timer);
          timeTaken = Since now startTime;
          timeTakenMs = Milliseconds timeTaken;
          position = int (length (r_CorrectGuessers room)) + 1;
          diff = difficulty_of (r_Word room);
          points = CalculateGuessPoints timeTaken position diff;
          playerGuess = \<lparr>pg_PlayerID = p_Id sender, pg_Username = p_Username sender,
                         pg_GuessTime = timeTakenMs, pg_IsCorrect = True\<rparr>;
          room = room\<lparr>r_CorrectGuessers := r_CorrectGuessers room @ [playerGuess]\<rparr>;
          room = update_player player
                   (\<lambda>p. p\<lparr>p_Score := p_Score p + points,
                           p_TotalGuesses := p_TotalGuesses p + 1,
                           p_CorrectGuesses := p_CorrectGuesses p + 1,
                           p_HasGuessed := True\<rparr>) room;
          room = (case r_Current room of
                    None \<Rightarrow> room
                  | Some current \<Rightarrow> update_player current (\<lambda>p. p\<lparr>p_Score := p_Score p + 50\<rparr>) room);
          allGuessed = allGuessed_of room;
          room = Unlock room;
          room = spawn (GoSafeBroadcastToRoom ''guess_result'') room
      in if allGuessed
         then and_then (CancelPhaseTimer room) (\<lambda>room. NextRound now room)
         else Inr room)"

text \<open>
  \<^verbatim>\<open>HandleGuessEnhanced\<close>. \<open>player\<close> is the \<^verbatim>\<open>Id\<close> of the sender, whose record is in the
  room's map from \<^verbatim>\<open>AddPlayer\<close> until its reader ends; a sender without a room is
  turned away at once.
\<close>

definition HandleGuessEnhanced ::
  "strings_package \<Rightarrow> int \<Rightarrow> string \<Rightarrow> string \<Rightarrow> Room \<Rightarrow> failure + Room" where
  "HandleGuessEnhanced strings now player guess room =
     (case map_of (r_Players room) player of
        None \<Rightarrow> Inr room
      | Some sender \<Rightarrow>
          let cleanedGuess = ToLower strings (TrimSpace strings guess) in
          and_then (Lock room) (\<lambda>room.
            if r_Current room = Some (p_Id sender) then Inr (Unlock room)
            else if p_HasGuessed sender then Inr (Unlock room)
            else
              let target = ToLower strings (TrimSpace strings (r_Word room)) in
              if target = [] \<or> target \<noteq> cleanedGuess then incorrect_guess_path player room
              else correct_guess_path now player sender room))"

section \<open>Package game: drawing\<close>

definition in_grid :: "int \<Rightarrow> int \<Rightarrow> bool" where
  "in_grid x y = (\<not> (x < 0 \<or> CanvasWidth \<le> x \<or> y < 0 \<or> CanvasHeight \<le> y))"

text \<open>Step 6 of \<^verbatim>\<open>HandlePixelDrawEnhanced\<close>: \<open>None\<close> when the message is discarded.\<close>

definition validate_pixels :: "PixelMessage \<Rightarrow> PixelMessage option" where
  "validate_pixels pixelMessage =
     (if pm_Type pixelMessage = PixelPlace \<or> pm_Type pixelMessage = ErasePixel then
        (case (pm_X pixelMessage, pm_Y pixelMessage) of
           (Some x, Some y) \<Rightarrow> if in_grid x y then Some pixelMessage else None
         | _ \<Rightarrow> None)
      else if pm_Type pixelMessage = BatchPlace \<or> pm_Type pixelMessage = BatchErase then
        (let validPixels = filter (\<lambda>p. in_grid (GridX p) (GridY p)) (pm_Pixels pixelMessage)
         in if validPixels = [] then None else Some (pixelMessage\<lparr>pm_Pixels := validPixels\<rparr>))
      else Some pixelMessage)"

text \<open>
  Step 7, on a message that has passed step 6 (a single pixel then has both
  coordinates).
\<close>

definition normalize_pixels :: "Player \<Rightarrow> PixelMessage \<Rightarrow> PixelMessage" where
  "normalize_pixels player pixelMessage =
     (if pm_Type pixelMessage = PixelPlace \<or> pm_Type pixelMessage = ErasePixel then
        (case (pm_X pixelMessage, pm_Y pixelMessage) of
           (Some x, Some y) \<Rightarrow>
             (let (gridX, gridY) = NormalizeCoordinates x y (p_CanvasWidth player) (p_CanvasHeight player)
              in pixelMessage\<lparr>pm_X := Some gridX, pm_Y := Some gridY\<rparr>)
         | _ \<Rightarrow> pixelMessage)
      else if pm_Type pixelMessage = BatchPlace \<or> pm_Type pixelMessage = BatchErase then
        pixelMessage\<lparr>pm_Pixels :=
          map (\<lambda>p. let (gridX, gridY) = NormalizeCoordinates (GridX p) (GridY p)
                                          (p_CanvasWidth player) (p_CanvasHeight player)
                    in p\<lparr>GridX := gridX, GridY := gridY\<rparr>)
            (pm_Pixels pixelMessage)\<rparr>
      else pixelMessage)"

text \<open>Step 8: what the message does to the canvas log.\<close>

definition is_pixel_at :: "PixelMessage \<Rightarrow> int \<Rightarrow> int \<Rightarrow> bool" where
  "is_pixel_at existing x y =
     (pm_Type existing = PixelPlace \<and> pm_X existing = Some x \<and> pm_Y existing = Some y)"

definition apply_pixels :: "PixelMessage \<Rightarrow> PixelMessage list \<Rightarrow> PixelMessage list" where
  "apply_pixels pixelMessage canvas =
     (case pm_Type pixelMessage of
        PixelPlace \<Rightarrow> canvas @ [pixelMessage]
      | BatchPlace \<Rightarrow> canvas @ [pixelMessage]
      | ErasePixel \<Rightarrow>
          (case (pm_X pixelMessage, pm_Y pixelMessage) of
             (Some x, Some y) \<Rightarrow> filter (\<lambda>existing. \<not> is_pixel_at existing x y) canvas
           | _ \<Rightarrow> canvas)
      | BatchErase \<Rightarrow>
          filter (\<lambda>existing.
                    \<not> (pm_Type existing = PixelPlace
                       \<and> (case (pm_X existing, pm_Y existing) of
                             (Some x, Some y) \<Rightarrow> (x, y) \<in> set (map (\<lambda>p. (GridX p, GridY p)) (pm_Pixels pixelMessage))
                           | _ \<Rightarrow> False)))
            canvas
      | OtherType s \<Rightarrow> canvas)"

text \<open>The server's time in milliseconds for a message that carries no time stamp.\<close>

definition stamp :: "int \<Rightarrow> PixelMessage \<Rightarrow> PixelMessage" where
  "stamp now m = (if pm_Timestamp m = 0 then m\<lparr>pm_Timestamp := now div 1000000\<rparr> else m)"

text \<open>
  \<^verbatim>\<open>HandlePixelDrawEnhanced\<close>. \<open>rawData\<close> is the outcome of \<^verbatim>\<open>json.Unmarshal\<close>: the
  message, or \<open>None\<close> for data that does not parse. The deferred \<^verbatim>\<open>Unlock\<close> runs at every
  return. The goroutine of step 9 reads \<^verbatim>\<open>room.Current\<close> when it runs.
\<close>

definition HandlePixelDrawEnhanced ::
    "int \<Rightarrow> string \<Rightarrow> PixelMessage option \<Rightarrow> Room \<Rightarrow> failure + Room" where
  "HandlePixelDrawEnhanced now player rawData room =
     (case map_of (r_Players room) player of
        None \<Rightarrow> Inr room
      | Some sender \<Rightarrow>
          and_then (Lock room) (\<lambda>room.
            if r_Phase room \<noteq> PhaseDrawing then Inr (Unlock room)
            else if r_Current room \<noteq> Some (p_Id sender) then Inr (Unlock room)
            else if \<not> p_CanDraw sender then Inr (Unlock room)
            else
              (case rawData of
                 None \<Rightarrow> Inr (Unlock room)
               | Some pixelMessage \<Rightarrow>
                   (case validate_pixels pixelMessage of
                      None \<Rightarrow> Inr (Unlock room)
                    | Some pixelMessage \<Rightarrow>
                        let pixelMessage = normalize_pixels sender pixelMessage;
                            pixelMessage = stamp now pixelMessage;
                            room = room\<lparr>r_CanvasState := apply_pixels pixelMessage (r_CanvasState room)\<rparr>;
                            room = spawn (GoSafeBroadcastToRoomExceptCurrent
                                            (type_string (pm_Type pixelMessage))) room
                        in Inr (Unlock room)))))"

definition ClearCanvas :: "string \<Rightarrow> Room \<Rightarrow> failure + Room" where
  "ClearCanvas clearedBy room =
     and_then (Lock room) (\<lambda>room.
       if r_Current room \<noteq> Some clearedBy then Inr (Unlock room)
       else
         let room = room\<lparr>r_CanvasState := []\<rparr>;
             room = Unlock room
         in Inr (spawn (GoSafeBroadcastToRoomExcept ''canvas_cleared'' (Some clearedBy)) room))"

section \<open>Package game: rooms and players\<close>

datatype error = WriteFailed | MaxPlayersReached | NotEnoughPlayers | NotAllReady

text \<open>The room \<^verbatim>\<open>getOrCreateRoom\<close> makes for an id that has none.\<close>

definition newRoom :: "string \<Rightarrow> Room" where
  "newRoom roomId =
     \<lparr>r_Id = roomId, r_Players = [], r_Phase = PhaseLobby, r_Current = None, r_CurrentIndex = 0,
      r_Word = [], r_WordChoices = [], r_RoundNumber = 1, r_MaxRounds = 3, r_RoundStats = [],
      r_Timer = Some \<lparr>t_StartTime = zero_time, t_Duration = 0, t_TimeRemaining = 0, t_IsActive = False\<rparr>,
      r_PlayerOrder = [], r_PlayersReady = [], r_CorrectGuessers = [], r_HasGameStarted = False,
      r_CanvasState = [], r_Mu = False, r_Outbox = [], r_Spawned = []\<rparr>"

definition getOrCreateRoom :: "string \<Rightarrow> (string \<rightharpoonup> Room) \<Rightarrow> Room" where
  "getOrCreateRoom roomId rooms = (case rooms roomId of Some room \<Rightarrow> room | None \<Rightarrow> newRoom roomId)"

definition ToPublicPlayer :: "Player \<Rightarrow> Player" where
  "ToPublicPlayer p =
     \<lparr>p_Id = p_Id p, p_Conn = False, p_Username = p_Username p, p_Score = p_Score p,
      p_CanvasHeight = 0, p_CanvasWidth = 0, p_IsReady = p_IsReady p, p_HasGuessed = p_HasGuessed p,
      p_LastGuessTime = zero_time, p_IsConnected = p_IsConnected p, p_JoinedAt = p_JoinedAt p,
      p_CanDraw = p_CanDraw p, p_TotalGuesses = p_TotalGuesses p,
      p_CorrectGuesses = p_CorrectGuesses p, p_TimesDrawn = p_TimesDrawn p\<rparr>"

text \<open>
  \<^verbatim>\<open>AddPlayer\<close> on the room that \<^verbatim>\<open>getOrCreateRoom\<close> delivers; the result is the error
  (\<open>None\<close> for \<^verbatim>\<open>nil\<close>) and the room. Building the welcome message reads
  \<^verbatim>\<open>room.Timer.TimeRemaining\<close> and calls \<^verbatim>\<open>GetMaskedWord(room.Word)\<close>.
\<close>

definition AddPlayer_to :: "Player \<Rightarrow> Room \<Rightarrow> failure + error option \<times> Room" where
  "AddPlayer_to player room =
     and_then (Lock room) (\<lambda>room.
       let player = player\<lparr>p_IsConnected := True, p_IsReady := False\<rparr>;
           room = room\<lparr>r_Players := AList.update (p_Id player) player (r_Players room)\<rparr>;
           room = Unlock room
       in and_then (SafeBroadcastToRoomExcept ''player_joined'' (Some (p_Id player)) room) (\<lambda>room.
            and_then (Lock room) (\<lambda>room.
              case r_Timer room of
                None \<Rightarrow> Inl (Panic NilDereference)
              | Some timer \<Rightarrow>
                  (case GetMaskedWord (r_Word room) of
                     Inl e \<Rightarrow> Inl (Panic e)
                   | Inr masked \<Rightarrow>
                       let room = Unlock room;
                           room = emit ''welcome_msg'' [p_Id player] room
                       in if \<not> write_ok (p_Id player) room then Inr (Some WriteFailed, room)
                          else
                            and_then (Lock room) (\<lambda>room.
                              if MaxPlayersPerRoom < int (length (r_Players room))
                              then Inr (Some MaxPlayersReached, Unlock room)
                              else Inr (None, Unlock room))))))"

definition AddPlayer ::
    "string \<Rightarrow> Player \<Rightarrow> (string \<rightharpoonup> Room) \<Rightarrow> failure + error option \<times> (string \<rightharpoonup> Room)" where
  "AddPlayer roomId player rooms =
     and_then (AddPlayer_to player (getOrCreateRoom roomId rooms)) (\<lambda>(err, room).
       Inr (err, rooms(roomId \<mapsto> room)))"




definition ResetRoomToLobby :: "Room \<Rightarrow> failure + Room" where
  "ResetRoomToLobby room =
     and_then (Lock room) (\<lambda>room.
       and_then (CancelPhaseTimer room) (\<lambda>room.
         let room = room\<lparr>r_Phase := PhaseLobby, r_HasGameStarted := False, r_CorrectGuessers := [],
                         r_Word := [], r_RoundNumber := 1, r_WordChoices := [], r_Current := None,
                         r_CurrentIndex := 0, r_PlayerOrder := [], r_PlayersReady := []\<rparr>;
             room = for_each_player (\<lambda>p. ResetRoundState (p\<lparr>p_IsReady := False\<rparr>)) room;
             room = room\<lparr>r_CanvasState := [], r_RoundStats := []\<rparr>;
             room = for_each_player (\<lambda>p. p\<lparr>p_Score := 0\<rparr>) room;
             room = Unlock room
         in SafeBroadcastToRoom ''lobby_reset'' room))"

subsection \<open>Goroutines\<close>

text \<open>
  What a started goroutine does once it runs: it is taken off the list and its function
  is called.
\<close>

definition run_task :: "int \<Rightarrow> Task \<Rightarrow> Room \<Rightarrow> failure + Room" where
  "run_task now t room =
     (case t of
        GoSafeBroadcastToRoom ty \<Rightarrow> SafeBroadcastToRoom ty room
      | GoSafeBroadcastToRoomExcept ty exclude \<Rightarrow> SafeBroadcastToRoomExcept ty exclude room
      | GoSafeBroadcastToRoomExceptCurrent ty \<Rightarrow> SafeBroadcastToRoomExcept ty (r_Current room) room
      | GoHandleWordSelection player word \<Rightarrow> HandleWordSelection player word room
      | GoStartDrawingPhase \<Rightarrow> StartDrawingPhase now room
      | GoStartWaitingPhase \<Rightarrow> StartWaitingPhase now room
      | GoEndGame \<Rightarrow> EndGame now room
      | GoResetRoomToLobby \<Rightarrow> ResetRoomToLobby room)"

definition run_next :: "int \<Rightarrow> Room \<Rightarrow> failure + Room" where
  "run_next now room =
     (case r_Spawned room of
        [] \<Rightarrow> Inr room
      | t # ts \<Rightarrow> run_task now t (room\<lparr>r_Spawned := ts\<rparr>))"

text \<open>The next \<open>n\<close> goroutines, one after the other.\<close>

fun run_tasks :: "int \<Rightarrow> nat \<Rightarrow> Room \<Rightarrow> failure + Room" where
  "run_tasks now 0 room = Inr room"
| "run_tasks now (Suc n) room = and_then (run_next now room) (run_tasks now n)"

section \<open>Example rooms\<close>

text \<open>
  A connected, ready player with a 700 by 400 canvas, and rooms at three moments of a
  game of the two players \<open>a\<close> and \<open>b\<close>: while \<open>a\<close> chooses a word, while \<open>a\<close> draws the
  word \<open>cat\<close>, and a lobby that is full.
\<close>

definition player_of :: "string \<Rightarrow> Player" where
  "player_of pid =
     \<lparr>p_Id = pid, p_Conn = True, p_Username = pid, p_Score = 0, p_CanvasHeight = 400,
      p_CanvasWidth = 700, p_IsReady = True, p_HasGuessed = False, p_LastGuessTime = zero_time,
      p_IsConnected = True, p_JoinedAt = 0, p_CanDraw = False, p_TotalGuesses = 0,
      p_CorrectGuesses = 0, p_TimesDrawn = 0\<rparr>"

definition selection_room :: Room where
  "selection_room =
     \<lparr>r_Id = ''R1'', r_Players = [(''a'', player_of ''a''), (''b'', player_of ''b'')],
      r_Phase = PhaseWaiting, r_Current = Some ''a'', r_CurrentIndex = 0, r_Word = [],
      r_WordChoices = [''cat'', ''giraffe'', ''microscope''], r_RoundNumber = 1, r_MaxRounds = 3,
      r_RoundStats = [],
      r_Timer = Some \<lparr>t_StartTime = 0, t_Duration = 15 * Second, t_TimeRemaining = 0, t_IsActive = True\<rparr>,
      r_PlayerOrder = [''a'', ''b''], r_PlayersReady = [(''a'', True), (''b'', True)],
      r_CorrectGuessers = [], r_HasGameStarted = True, r_CanvasState = [], r_Mu = False,
      r_Outbox = [], r_Spawned = []\<rparr>"

definition drawing_room :: Room where
  "drawing_room =
     selection_room
       \<lparr>r_Players := [(''a'', (player_of ''a'')\<lparr>p_CanDraw := True\<rparr>), (''b'', player_of ''b'')],
        r_Phase := PhaseDrawing, r_Word := ''cat'', r_WordChoices := [],
        r_Timer := Some \<lparr>t_StartTime = 0, t_Duration = DrawingPhaseDuration, t_TimeRemaining = 0,
                          t_IsActive = True\<rparr>\<rparr>"

definition full_lobby :: Room where
  "full_lobby =
     (newRoom ''R1'')
       \<lparr>r_Players := map (\<lambda>pid. (pid, (player_of pid)\<lparr>p_IsReady := False\<rparr>))
                       [''p1'', ''p2'', ''p3'', ''p4'', ''p5'', ''p6'', ''p7'', ''p8'']\<rparr>"

section \<open>Notions used in the properties\<close>

text \<open>The three conditions under which \<^verbatim>\<open>HandlePixelDrawEnhanced\<close> goes on to read the message.\<close>

definition may_draw :: "string \<Rightarrow> Room \<Rightarrow> bool" where
  "may_draw player room =
     (case map_of (r_Players room) player of
        None \<Rightarrow> False
      | Some sender \<Rightarrow>
          r_Phase room = PhaseDrawing \<and> r_Current room = Some (p_Id sender) \<and> p_CanDraw sender)"


text \<open>
  A guess matches a word: the two are equal after \<^verbatim>\<open>TrimSpace\<close> and \<^verbatim>\<open>ToLower\<close>, and what is
  left of the word is not empty.
\<close>

definition guess_matches :: "strings_package \<Rightarrow> string \<Rightarrow> string \<Rightarrow> bool" where
  "guess_matches strings guess word =
     (ToLower strings (TrimSpace strings word) \<noteq> []
      \<and> ToLower strings (TrimSpace strings word) = ToLower strings (TrimSpace strings guess))"

text \<open>
  The same on strings of ASCII bytes, written out: equal up to the case of the letters
  \<open>A\<close> to \<open>Z\<close> once the white space of ASCII is cut from both ends.
\<close>

definition matches_ascii :: "string \<Rightarrow> string \<Rightarrow> bool" where
  "matches_ascii guess word =
     (TrimSpace_ascii word \<noteq> []
      \<and> ToLower_ascii (TrimSpace_ascii word) = ToLower_ascii (TrimSpace_ascii guess))"

text \<open>
  What is assumed of Go's package: on strings of ASCII bytes its two functions are the
  ones written out above.
\<close>

definition ascii_behaviour :: "strings_package \<Rightarrow> bool" where
  "ascii_behaviour strings =
     (\<forall>s. is_ascii s \<longrightarrow> ToLower strings s = ToLower_ascii s \<and> TrimSpace strings s = TrimSpace_ascii s)"

text \<open>A sender whose guess \<^verbatim>\<open>HandleGuessEnhanced\<close> compares: in the room, not the drawer, not yet right.\<close>

definition may_guess :: "string \<Rightarrow> Room \<Rightarrow> bool" where
  "may_guess player room =
     (case map_of (r_Players room) player of
        None \<Rightarrow> False
      | Some sender \<Rightarrow> r_Current room \<noteq> Some (p_Id sender) \<and> \<not> p_HasGuessed sender)"


text \<open>The room after an incorrect guess: one more guess counted, the \<open>guess_message\<close> broadcast started.\<close>

definition incorrect_guess_result :: "string \<Rightarrow> Room \<Rightarrow> Room" where
  "incorrect_guess_result player room =
     spawn (GoSafeBroadcastToRoom ''guess_message'')
       (update_player player (\<lambda>p. p\<lparr>p_TotalGuesses := p_TotalGuesses p + 1\<rparr>) room)"

section \<open>Properties\<close>

subsection \<open>Sequencing, the lock and the timer\<close>

lemma and_then_Inl [simp]: "and_then (Inl e) f = Inl e"
  by (simp add: and_then_def)

lemma and_then_Inr [simp]: "and_then (Inr x) f = f x"
  by (simp add: and_then_def)

lemma Lock_free: "\<not> r_Mu room \<Longrightarrow> Lock room = Inr (room\<lparr>r_Mu := True\<rparr>)"
  by (simp add: Lock_def)

lemma Lock_held: "r_Mu room \<Longrightarrow> Lock room = Inl Deadlock"
  by (simp add: Lock_def)

lemma Unlock_locked: "\<not> r_Mu room \<Longrightarrow> Unlock (room\<lparr>r_Mu := True\<rparr>) = room"
  by (cases room) (simp add: Unlock_def)


lemma CancelPhaseTimer_free:
  "\<not> r_Mu room \<Longrightarrow> \<exists>t ob. CancelPhaseTimer room = Inr (room\<lparr>r_Timer := t, r_Outbox := ob\<rparr>)"
proof (cases "r_Timer room")
  case None
  assume "\<not> r_Mu room"
  with None have "CancelPhaseTimer room = Inr room"
    by (simp add: CancelPhaseTimer_def Lock_free Unlock_locked)
  then have "CancelPhaseTimer room = Inr (room\<lparr>r_Timer := r_Timer room, r_Outbox := r_Outbox room\<rparr>)"
    by simp
  then show ?thesis by blast
next
  case (Some timer)
  assume free: "\<not> r_Mu room"
  show ?thesis
  proof (cases "t_IsActive timer")
    case False
    with Some free have "CancelPhaseTimer room = Inr room"
      by (simp add: CancelPhaseTimer_def Lock_free Unlock_locked)
    then have "CancelPhaseTimer room = Inr (room\<lparr>r_Timer := r_Timer room, r_Outbox := r_Outbox room\<rparr>)"
      by simp
    then show ?thesis by blast
  next
    case True
    with Some free show ?thesis
      by (cases room) (simp add: CancelPhaseTimer_def Lock_def Unlock_def SafeBroadcastToRoom_def emit_def)
  qed
qed

lemma HandleWordSelection_chosen:
  "\<not> r_Mu room \<Longrightarrow> r_Word room \<noteq> [] \<Longrightarrow> HandleWordSelection player w room = Inr room"
  by (simp add: HandleWordSelection_def Lock_free Unlock_locked)

lemma SelectionTimerExpired_chosen:
  "\<not> r_Mu room \<Longrightarrow> r_Word room \<noteq> [] \<Longrightarrow> SelectionTimerExpired d room = Inr room"
  by (simp add: SelectionTimerExpired_def Lock_free Unlock_locked)

lemma HandleWordSelection_no_choices:
  "\<not> r_Mu room \<Longrightarrow> r_WordChoices room = [] \<Longrightarrow> HandleWordSelection player w room = Inr room"
  by (simp add: HandleWordSelection_def Lock_free Unlock_locked)

lemma SelectionTimerExpired_no_choices:
  "\<not> r_Mu room \<Longrightarrow> r_WordChoices room = [] \<Longrightarrow> SelectionTimerExpired d room = Inr room"
  by (simp add: SelectionTimerExpired_def Lock_free Unlock_locked)

lemma HandleWordSelection_first:
  assumes "\<not> r_Mu room" "r_Current room = Some player" "r_Word room = []"
    "w \<in> set (r_WordChoices room)"
  shows "\<exists>t ob. HandleWordSelection player w room =
           Inr (room\<lparr>r_Word := w, r_WordChoices := [], r_Timer := t, r_Outbox := ob,
                      r_Spawned := r_Spawned room @ [GoStartDrawingPhase]\<rparr>)"
proof -
  define room1 where "room1 = Unlock (room\<lparr>r_Mu := True, r_Word := w, r_WordChoices := []\<rparr>)"
  have "\<not> r_Mu room1" by (simp add: room1_def Unlock_def)
  from CancelPhaseTimer_free [OF this] obtain t ob
    where c: "CancelPhaseTimer room1 = Inr (room1\<lparr>r_Timer := t, r_Outbox := ob\<rparr>)" by blast
  have "HandleWordSelection player w room =
          Inr (spawn GoStartDrawingPhase (room1\<lparr>r_Timer := t, r_Outbox := ob\<rparr>))"
    using assms c by (simp add: HandleWordSelection_def Lock_free room1_def)
  also have "spawn GoStartDrawingPhase (room1\<lparr>r_Timer := t, r_Outbox := ob\<rparr>) =
          room\<lparr>r_Word := w, r_WordChoices := [], r_Timer := t, r_Outbox := ob,
                     r_Spawned := r_Spawned room @ [GoStartDrawingPhase]\<rparr>"
    using assms(1) by (cases room) (simp add: room1_def Unlock_def spawn_def)
  finally show ?thesis by blast
qed


subsection \<open>Masking\<close>

lemma GetMaskedWord_nonempty_panics:
  "GetMaskedWord (c # cs) = Inl (IndexOutOfRange 0 0)"
  by (simp add: GetMaskedWord_def range_indices_def set_index_def)

text \<open>
  C5. The claim wants \<^verbatim>\<open>GetMaskedWord\<close> to turn a three-letter word into \<open>_ _ _\<close>.
  The code assigns into a slice of length 0: on the word \<open>cat\<close> the first assignment
  \<^verbatim>\<open>masked[0] = "_"\<close> is out of range and the call panics; no masked word is returned.
\<close>

theorem C5_GetMaskedWord_cat_panics:
  "GetMaskedWord ''cat'' = Inl (IndexOutOfRange 0 0) \<and> GetMaskedWord ''cat'' \<noteq> Inr ''_ _ _''"
  by (simp add: GetMaskedWord_nonempty_panics)

subsection \<open>Points\<close>

text \<open>
  C2. The claim gives 0.75 as speed multiplier for every elapsed time of 60 seconds or
  more, hence 60 points for exactly 60 seconds, fourth position, hard word. The last case
  of the code's switch reads \<^verbatim>\<open>t > 60\<close>: at exactly 60 seconds no case applies, the
  multiplier keeps its zero value and the guess earns 0 points. One nanosecond later the
  result is the 60 of the claim, and the claim's other example, 150, holds.
\<close>

theorem C2_CalculateGuessPoints_60s_is_0:
  "CalculateGuessPoints 60000000000 4 DifficultyHard = 0
   \<and> CalculateGuessPoints 60000000001 4 DifficultyHard = 60
   \<and> CalculateGuessPoints 9999000000 1 DifficultyEasy = 150"
  by code_simp

subsection \<open>The last correct guess\<close>

text \<open>
  C1. The claim sends the room to the revealing phase when a correct guess completes the
  round. In the room where \<open>a\<close> draws \<open>cat\<close> and \<open>b\<close> is the only guesser, \<open>b\<close>'s correct
  guess makes \<open>HandleGuessEnhanced\<close> cancel the timer and call \<open>NextRound\<close>: the handler
  returns with the phase still drawing, the word cleared, no round statistics recorded and
  the goroutine of \<open>StartWaitingPhase\<close> started. Once the two started goroutines have run
  the phase is waiting; no \<open>round_end\<close> message has been sent and the phase has never been
  revealing. The guess and the word are strings of ASCII bytes, on which \<open>ascii_strings\<close>
  is Go's package.
\<close>

theorem C1_last_guess_starts_next_round:
  "(case HandleGuessEnhanced ascii_strings 5000000000 ''b'' ''cat'' drawing_room of
      Inl e \<Rightarrow> False
    | Inr room \<Rightarrow>
        r_Phase room = PhaseDrawing \<and> r_Word room = [] \<and> r_RoundStats room = []
        \<and> r_Current room = Some ''b''
        \<and> r_Spawned room = [GoSafeBroadcastToRoom ''guess_result'', GoStartWaitingPhase])
   \<and> (case and_then (HandleGuessEnhanced ascii_strings 5000000000 ''b'' ''cat'' drawing_room)
              (run_tasks 5000000000 2) of
        Inl e \<Rightarrow> False
      | Inr room \<Rightarrow>
          r_Phase room = PhaseWaiting \<and> r_RoundStats room = [] \<and> r_Spawned room = []
          \<and> r_Outbox room =
                [Emit ''timer_update'' [''a'', ''b''], Emit ''guess_result'' [''a'', ''b''],
                 Emit ''waiting_phase'' [''a'', ''b'']])"
  by code_simp

subsection \<open>Joining a full room\<close>

text \<open>
  C3. The claim wants a join to a room of eight players turned down with no effect. In
  the lobby with the players \<open>p1\<close> to \<open>p8\<close>, \<open>AddPlayer\<close> for \<open>p9\<close> returns the error, but
  only after it has put \<open>p9\<close> into the map, which now has nine entries, and has sent
  \<open>player_joined\<close> to the eight others.
\<close>

theorem C3_ninth_player_stays_in_room:
  "(case AddPlayer ''R1'' (player_of ''p9'') (Map.empty(''R1'' \<mapsto> full_lobby)) of
      Inl e \<Rightarrow> False
    | Inr (err, rooms) \<Rightarrow>
        err = Some MaxPlayersReached
        \<and> (case rooms ''R1'' of
             None \<Rightarrow> False
           | Some room \<Rightarrow>
               length (r_Players full_lobby) = 8 \<and> length (r_Players room) = 9
               \<and> map_of (r_Players room) ''p9'' \<noteq> None
               \<and> r_Outbox room =
                     [Emit ''player_joined'' [''p1'', ''p2'', ''p3'', ''p4'', ''p5'', ''p6'', ''p7'', ''p8''],
                      Emit ''welcome_msg'' [''p9'']]))"
  by code_simp

subsection \<open>Choosing the word\<close>

text \<open>
  C4. Word selection is idempotent. In a room whose lock is free, a selection by the
  current drawer of one of the offered words, made while no word is set, sets the word and
  empties the choices; any further selection and the callback of the selection timer
  return the room as it is, so that two selections in a row end in the state of the first.
  Whenever a word is set, a selection and the callback leave the room unchanged.
\<close>

theorem C4_word_selection_idempotent:
  assumes "\<not> r_Mu room"
  shows "(r_Current room = Some player \<and> r_Word room = [] \<and> w \<in> set (r_WordChoices room) \<longrightarrow>
            (\<exists>room'. HandleWordSelection player w room = Inr room'
                \<and> r_Word room' = w \<and> r_WordChoices room' = []
                \<and> and_then (HandleWordSelection player w room) (HandleWordSelection p' w') = Inr room'
                \<and> and_then (HandleWordSelection player w room) (SelectionTimerExpired d) = Inr room'))
         \<and> (r_Word room \<noteq> [] \<longrightarrow>
               HandleWordSelection p' w' room = Inr room \<and> SelectionTimerExpired d room = Inr room)"
proof (intro conjI impI)
  assume a: "r_Current room = Some player \<and> r_Word room = [] \<and> w \<in> set (r_WordChoices room)"
  with assms HandleWordSelection_first [of room player w] obtain t ob where
    h: "HandleWordSelection player w room =
          Inr (room\<lparr>r_Word := w, r_WordChoices := [], r_Timer := t, r_Outbox := ob,
                     r_Spawned := r_Spawned room @ [GoStartDrawingPhase]\<rparr>)" by blast
  let ?room' = "room\<lparr>r_Word := w, r_WordChoices := [], r_Timer := t, r_Outbox := ob,
                     r_Spawned := r_Spawned room @ [GoStartDrawingPhase]\<rparr>"
  have free: "\<not> r_Mu ?room'" using assms by simp
  have nc: "r_WordChoices ?room' = []" by simp
  show "\<exists>room'. HandleWordSelection player w room = Inr room'
                \<and> r_Word room' = w \<and> r_WordChoices room' = []
                \<and> and_then (HandleWordSelection player w room) (HandleWordSelection p' w') = Inr room'
                \<and> and_then (HandleWordSelection player w room) (SelectionTimerExpired d) = Inr room'"
    using h HandleWordSelection_no_choices [OF free nc] SelectionTimerExpired_no_choices [OF free nc]
    by simp
next
  assume "r_Word room \<noteq> []"
  with assms show "HandleWordSelection p' w' room = Inr room"
    by (rule HandleWordSelection_chosen)
next
  assume "r_Word room \<noteq> []"
  with assms show "SelectionTimerExpired d room = Inr room"
    by (rule SelectionTimerExpired_chosen)
qed

theorem C4_word_selection_idempotent_witness:
  "\<not> r_Mu selection_room \<and> r_Current selection_room = Some ''a'' \<and> r_Word selection_room = []
   \<and> ''cat'' \<in> set (r_WordChoices selection_room)
   \<and> (\<exists>room'. HandleWordSelection ''a'' ''cat'' selection_room = Inr room'
         \<and> r_Word room' = ''cat'' \<and> r_WordChoices room' = []
         \<and> and_then (HandleWordSelection ''a'' ''cat'' selection_room) (HandleWordSelection ''a'' ''giraffe'') = Inr room'
         \<and> and_then (HandleWordSelection ''a'' ''cat'' selection_room) (SelectionTimerExpired ''a'') = Inr room')
   \<and> r_Word drawing_room \<noteq> [] \<and> \<not> r_Mu drawing_room
   \<and> HandleWordSelection ''a'' ''giraffe'' drawing_room = Inr drawing_room
   \<and> SelectionTimerExpired ''a'' drawing_room = Inr drawing_room"
proof -
  have f1: "\<not> r_Mu selection_room" by (simp add: selection_room_def)
  have f2: "\<not> r_Mu drawing_room" by (simp add: drawing_room_def selection_room_def)
  have a: "r_Current selection_room = Some ''a'' \<and> r_Word selection_room = []
     \<and> ''cat'' \<in> set (r_WordChoices selection_room)" by (simp add: selection_room_def)
  have b: "r_Word drawing_room \<noteq> []" by (simp add: drawing_room_def selection_room_def)
  show ?thesis
    using f1 f2 a b
      C4_word_selection_idempotent [OF f1, of "''a''" "''cat''" "''a''" "''giraffe''" "''a''"]
      C4_word_selection_idempotent [OF f2, of "''a''" "''cat''" "''a''" "''giraffe''" "''a''"]
    by blast
qed


subsection \<open>Drawing and clearing\<close>

lemma HandlePixelDrawEnhanced_dropped:
  "\<not> r_Mu room \<Longrightarrow> \<not> may_draw player room \<Longrightarrow>
   HandlePixelDrawEnhanced now player rawData room = Inr room"
  by (auto simp add: HandlePixelDrawEnhanced_def may_draw_def Lock_free Unlock_locked
      split: option.splits)



lemma ClearCanvas_dropped:
  "\<not> r_Mu room \<Longrightarrow> r_Current room \<noteq> Some player \<Longrightarrow> ClearCanvas player room = Inr room"
  by (simp add: ClearCanvas_def Lock_free Unlock_locked)

lemma ClearCanvas_honoured:
  "\<not> r_Mu room \<Longrightarrow> r_Current room = Some player \<Longrightarrow>
   ClearCanvas player room =
     Inr (room\<lparr>r_CanvasState := [],
                r_Spawned := r_Spawned room @ [GoSafeBroadcastToRoomExcept ''canvas_cleared'' (Some player)]\<rparr>)"
  by (cases room) (simp add: ClearCanvas_def Lock_def Unlock_def spawn_def)


text \<open>
  C9, as the code has it. In a room whose lock is free, a \<open>pixel_draw\<close> from a sender for
  whom one of the three conditions fails (phase drawing, sender is the current drawer,
  sender may draw) is dropped: the room stays as it is, nothing is sent and no goroutine
  is started. A \<open>clear_canvas\<close> is dropped when the sender is not the current drawer; from
  the current drawer it empties the canvas and starts the \<open>canvas_cleared\<close> broadcast, in
  any phase and whatever \<open>canDraw\<close> says.
\<close>

theorem C9_draw_gated_clear_by_drawer:
  assumes "\<not> r_Mu room"
  shows "(\<not> may_draw player room \<longrightarrow> HandlePixelDrawEnhanced now player rawData room = Inr room)
         \<and> (r_Current room \<noteq> Some player \<longrightarrow> ClearCanvas player room = Inr room)
         \<and> (r_Current room = Some player \<longrightarrow>
               ClearCanvas player room =
                 Inr (room\<lparr>r_CanvasState := [],
                            r_Spawned := r_Spawned room @
                              [GoSafeBroadcastToRoomExcept ''canvas_cleared'' (Some player)]\<rparr>))"
  using assms HandlePixelDrawEnhanced_dropped ClearCanvas_dropped ClearCanvas_honoured by blast

text \<open>
  C9 as claimed fails for \<open>clear_canvas\<close>: while \<open>a\<close> chooses a word the phase is waiting
  and \<open>a\<close> may not draw, yet \<open>ClearCanvas\<close> for \<open>a\<close> goes through and starts the
  \<open>canvas_cleared\<close> broadcast.
\<close>

theorem C9_clear_outside_drawing_counterexample:
  "r_Phase selection_room \<noteq> PhaseDrawing \<and> \<not> may_draw ''a'' selection_room
   \<and> ClearCanvas ''a'' selection_room \<noteq> Inr selection_room
   \<and> (case ClearCanvas ''a'' selection_room of
         Inl e \<Rightarrow> False
       | Inr room \<Rightarrow> r_Spawned room = [GoSafeBroadcastToRoomExcept ''canvas_cleared'' (Some ''a'')])"
  by code_simp

text \<open>C9 at the room where \<open>a\<close> chooses a word, for the senders \<open>b\<close> and \<open>a\<close>.\<close>

theorem C9_draw_gated_clear_by_drawer_witness:
  "\<not> r_Mu selection_room \<and> \<not> may_draw ''b'' selection_room
   \<and> HandlePixelDrawEnhanced 1 ''b'' None selection_room = Inr selection_room
   \<and> r_Current selection_room \<noteq> Some ''b''
   \<and> ClearCanvas ''b'' selection_room = Inr selection_room
   \<and> r_Current selection_room = Some ''a''
   \<and> ClearCanvas ''a'' selection_room =
        Inr (selection_room\<lparr>r_CanvasState := [],
               r_Spawned := r_Spawned selection_room @
                 [GoSafeBroadcastToRoomExcept ''canvas_cleared'' (Some ''a'')]\<rparr>)"
proof -
  have f: "\<not> r_Mu selection_room" by (simp add: selection_room_def)
  have d: "\<not> may_draw ''b'' selection_room" by (simp add: selection_room_def may_draw_def player_of_def)
  have c: "r_Current selection_room \<noteq> Some ''b''" "r_Current selection_room = Some ''a''"
    by (simp_all add: selection_room_def)
  show ?thesis
    using f d c C9_draw_gated_clear_by_drawer [OF f, of "''b''" 1 None]
      C9_draw_gated_clear_by_drawer [OF f, of "''a''" 1 None]
    by blast
qed



lemma stamp_fields [simp]:
  "pm_Type (stamp now m) = pm_Type m" "pm_X (stamp now m) = pm_X m" "pm_Y (stamp now m) = pm_Y m"
  by (simp_all add: stamp_def)








subsection \<open>The word and the phase\<close>















subsection \<open>Matching a guess\<close>

lemma Lock_guessers: "Lock room = Inr room1 \<Longrightarrow> r_CorrectGuessers room1 = r_CorrectGuessers room"
  by (auto simp add: Lock_def split: if_splits)

lemma UpdatePlayerOrder_guessers:
  "UpdatePlayerOrder room = Inr room1 \<Longrightarrow> r_CorrectGuessers room1 = r_CorrectGuessers room"
  by (auto simp add: UpdatePlayerOrder_def Lock_def Unlock_def Let_def split: if_splits option.splits)

lemma ValidateGameState_guessers:
  "ValidateGameState now room = Inr (valid, room1) \<Longrightarrow> r_CorrectGuessers room1 = r_CorrectGuessers room"
  by (auto simp add: ValidateGameState_def Lock_def Unlock_def split: if_splits)

lemma and_then_InrE:
  assumes "and_then m f = Inr y"
  obtains x where "m = Inr x" "f x = Inr y"
  using assms by (cases m) simp_all

lemma NextRound_CorrectGuessers:
  assumes "NextRound now room = Inr room'"
  shows "r_CorrectGuessers room' = r_CorrectGuessers room"
proof -
  from assms obtain roomU where u: "UpdatePlayerOrder room = Inr roomU"
    and r1: "and_then (Lock roomU) (\<lambda>room.
         if r_PlayerOrder room = [] then Inr (spawn GoEndGame (Unlock room))
         else
           let room = room\<lparr>r_CurrentIndex :=
                        go_rem (r_CurrentIndex room + 1) (int (length (r_PlayerOrder room)))\<rparr>;
               room = room\<lparr>r_Word := []\<rparr>;
               wrapped = (r_CurrentIndex room = 0);
               room = (if wrapped then room\<lparr>r_RoundNumber := r_RoundNumber room + 1\<rparr> else room)
           in if wrapped \<and> r_MaxRounds room < r_RoundNumber room
              then Inr (spawn GoEndGame (Unlock room))
              else
                and_then (index (r_PlayerOrder room) (r_CurrentIndex room)) (\<lambda>nextPlayerID.
                  let room = room\<lparr>r_Current := map_option p_Id (map_of (r_Players room) nextPlayerID)\<rparr>;
                      room = Unlock room
                  in and_then (ValidateGameState now room) (\<lambda>(valid, room).
                       and_then (Lock room) (\<lambda>room.
                         Inr (spawn GoStartWaitingPhase (Unlock room)))))) = Inr room'"
    unfolding NextRound_def by (rule and_then_InrE)
  from r1 obtain roomL where l: "Lock roomU = Inr roomL"
    and r2: "(if r_PlayerOrder roomL = [] then Inr (spawn GoEndGame (Unlock roomL))
         else
           let room = roomL\<lparr>r_CurrentIndex :=
                        go_rem (r_CurrentIndex roomL + 1) (int (length (r_PlayerOrder roomL)))\<rparr>;
               room = room\<lparr>r_Word := []\<rparr>;
               wrapped = (r_CurrentIndex room = 0);
               room = (if wrapped then room\<lparr>r_RoundNumber := r_RoundNumber room + 1\<rparr> else room)
           in if wrapped \<and> r_MaxRounds room < r_RoundNumber room
              then Inr (spawn GoEndGame (Unlock room))
              else
                and_then (index (r_PlayerOrder room) (r_CurrentIndex room)) (\<lambda>nextPlayerID.
                  let room = room\<lparr>r_Current := map_option p_Id (map_of (r_Players room) nextPlayerID)\<rparr>;
                      room = Unlock room
                  in and_then (ValidateGameState now room) (\<lambda>(valid, room).
                       and_then (Lock room) (\<lambda>room.
                         Inr (spawn GoStartWaitingPhase (Unlock room)))))) = Inr room'"
    by (rule and_then_InrE)
  have g: "r_CorrectGuessers roomL = r_CorrectGuessers room"
    using Lock_guessers [OF l] UpdatePlayerOrder_guessers [OF u] by simp
  have "r_CorrectGuessers room' = r_CorrectGuessers roomL"
    using r2
    by (auto simp add: Let_def spawn_def Unlock_def and_then_def
        split: if_splits sum.splits prod.splits
        dest!: ValidateGameState_guessers Lock_guessers)
  with g show ?thesis by simp
qed


lemma HandleGuessEnhanced_ignored:
  "\<not> r_Mu room \<Longrightarrow> \<not> may_guess player room \<Longrightarrow>
   HandleGuessEnhanced strings now player guess room = Inr room"
  by (auto simp add: HandleGuessEnhanced_def may_guess_def Lock_free Unlock_locked Let_def
      split: option.splits)

lemma HandleGuessEnhanced_compared:
  assumes "\<not> r_Mu room" "map_of (r_Players room) player = Some sender" "may_guess player room"
  shows "HandleGuessEnhanced strings now player guess room =
           (if guess_matches strings guess (r_Word room)
            then correct_guess_path now player sender (room\<lparr>r_Mu := True\<rparr>)
            else incorrect_guess_path player (room\<lparr>r_Mu := True\<rparr>))"
  using assms
  by (auto simp add: HandleGuessEnhanced_def may_guess_def guess_matches_def Lock_free Let_def)

lemma incorrect_guess_path_locked:
  "\<not> r_Mu room \<Longrightarrow>
   incorrect_guess_path player (room\<lparr>r_Mu := True\<rparr>) = Inr (incorrect_guess_result player room)"
  by (cases room)
     (simp add: incorrect_guess_path_def incorrect_guess_result_def update_player_def Unlock_def
        spawn_def)

lemma incorrect_guess_result_guessers [simp]:
  "r_CorrectGuessers (incorrect_guess_result player room) = r_CorrectGuessers room"
  by (simp add: incorrect_guess_result_def spawn_def update_player_def)

lemma correct_guess_path_guessers:
  assumes "correct_guess_path now player sender room = Inr room'"
  shows "length (r_CorrectGuessers room') = Suc (length (r_CorrectGuessers room))"
proof -
  define room1 where "room1 =
    room\<lparr>r_CorrectGuessers := r_CorrectGuessers room @
      [\<lparr>pg_PlayerID = p_Id sender, pg_Username = p_Username sender,
        pg_GuessTime = Milliseconds (Since now (case r_Timer room of None \<Rightarrow> zero_time
                                                | Some timer \<Rightarrow> t_StartTime timer)),
        pg_IsCorrect = True\<rparr>]\<rparr>"
  define points where "points =
    CalculateGuessPoints (Since now (case r_Timer room of None \<Rightarrow> zero_time | Some timer \<Rightarrow> t_StartTime timer))
      (int (length (r_CorrectGuessers room)) + 1) (difficulty_of (r_Word room))"
  define room2 where "room2 =
    update_player player
      (\<lambda>p. p\<lparr>p_Score := p_Score p + points, p_TotalGuesses := p_TotalGuesses p + 1,
              p_CorrectGuesses := p_CorrectGuesses p + 1, p_HasGuessed := True\<rparr>) room1"
  define room3 where "room3 =
    (case r_Current room2 of
       None \<Rightarrow> room2
     | Some current \<Rightarrow> update_player current (\<lambda>p. p\<lparr>p_Score := p_Score p + 50\<rparr>) room2)"
  define room4 where "room4 = spawn (GoSafeBroadcastToRoom ''guess_result'') (Unlock room3)"
  have c: "correct_guess_path now player sender room =
     (if allGuessed_of room3 then and_then (CancelPhaseTimer room4) (\<lambda>room. NextRound now room)
      else Inr room4)"
    unfolding correct_guess_path_def Let_def room4_def room3_def room2_def room1_def points_def
    by (rule refl)
  have g4: "r_CorrectGuessers room4 = r_CorrectGuessers room1"
    by (simp add: room4_def room3_def room2_def spawn_def Unlock_def update_player_def
        split: option.splits)
  have g1: "length (r_CorrectGuessers room1) = Suc (length (r_CorrectGuessers room))"
    by (simp add: room1_def)
  have f4: "\<not> r_Mu room4" by (simp add: room4_def spawn_def Unlock_def)
  show ?thesis
  proof (cases "allGuessed_of room3")
    case False
    with c assms have "room' = room4" by simp
    then show ?thesis using g4 g1 by simp
  next
    case True
    from CancelPhaseTimer_free [OF f4] obtain t ob where
      ct: "CancelPhaseTimer room4 = Inr (room4\<lparr>r_Timer := t, r_Outbox := ob\<rparr>)" by blast
    with c True assms have "NextRound now (room4\<lparr>r_Timer := t, r_Outbox := ob\<rparr>) = Inr room'" by simp
    from NextRound_CorrectGuessers [OF this] show ?thesis using g4 g1 by simp
  qed
qed

lemma is_ascii_TrimSpace_ascii: "is_ascii s \<Longrightarrow> is_ascii (TrimSpace_ascii s)"
proof -
  assume "is_ascii s"
  then have a: "\<forall>c \<in> set s. of_char c < (0x80::nat)" by (simp add: is_ascii_def list_all_iff)
  have "set (TrimSpace_ascii s) \<subseteq> set s"
  proof
    fix c assume "c \<in> set (TrimSpace_ascii s)"
    then have "c \<in> set (dropWhile is_space (rev (dropWhile is_space s)))"
      by (simp add: TrimSpace_ascii_def)
    then have "c \<in> set (rev (dropWhile is_space s))" by (rule set_dropWhileD)
    then have "c \<in> set (dropWhile is_space s)" by simp
    then show "c \<in> set s" by (rule set_dropWhileD)
  qed
  with a show ?thesis by (auto simp add: is_ascii_def list_all_iff)
qed

lemma ToLower_ascii_empty: "ToLower_ascii s = [] \<longleftrightarrow> s = []"
  by (simp add: ToLower_ascii_def)

lemma guess_matches_ascii:
  assumes "ascii_behaviour strings" "is_ascii guess" "is_ascii word"
  shows "guess_matches strings guess word = matches_ascii guess word"
proof -
  from assms have t: "TrimSpace strings guess = TrimSpace_ascii guess"
    "TrimSpace strings word = TrimSpace_ascii word" by (simp_all add: ascii_behaviour_def)
  from assms have l: "ToLower strings (TrimSpace_ascii guess) = ToLower_ascii (TrimSpace_ascii guess)"
    "ToLower strings (TrimSpace_ascii word) = ToLower_ascii (TrimSpace_ascii word)"
    by (simp_all add: ascii_behaviour_def is_ascii_TrimSpace_ascii)
  show ?thesis by (simp add: guess_matches_def matches_ascii_def t l ToLower_ascii_empty)
qed

lemma ascii_behaviour_ascii_strings: "ascii_behaviour ascii_strings"
  by (simp add: ascii_behaviour_def ascii_strings_def)

text \<open>
  C10, as the code has it. In a room whose lock is free, the guess of a sender who is in
  the room, is not the drawer and has not guessed yet takes the incorrect-guess path
  exactly when it does not match the word, where matching compares
  \<^verbatim>\<open>strings.ToLower(strings.TrimSpace(guess))\<close> with
  \<^verbatim>\<open>strings.ToLower(strings.TrimSpace(room.Word))\<close> and needs the latter not to be empty. The
  guess of any other sender (the drawer, a player who has guessed already) is ignored
  before any comparison: the room stays as it is. With a package \<open>strings\<close> that does on
  strings of ASCII bytes what Go's does, an empty word matches no guess, and a guess and a
  word of ASCII bytes match exactly when the word, with the white space of ASCII cut from
  both ends, is not empty and equals the guess, cut in the same way, up to the case of the
  letters \<open>A\<close> to \<open>Z\<close>. Beyond ASCII the comparison is the one of Go's functions, whatever
  they give.
\<close>

theorem C10_guess_matching:
  assumes "\<not> r_Mu room"
  shows "(may_guess player room \<longrightarrow>
            (HandleGuessEnhanced strings now player guess room = Inr (incorrect_guess_result player room))
              = (\<not> guess_matches strings guess (r_Word room)))
         \<and> (\<not> may_guess player room \<longrightarrow> HandleGuessEnhanced strings now player guess room = Inr room)
         \<and> (ascii_behaviour strings \<longrightarrow> \<not> guess_matches strings guess [])
         \<and> (ascii_behaviour strings \<and> is_ascii guess \<and> is_ascii (r_Word room) \<longrightarrow>
              guess_matches strings guess (r_Word room) = matches_ascii guess (r_Word room))"
proof (intro conjI impI)
  assume m: "may_guess player room"
  then obtain sender where s: "map_of (r_Players room) player = Some sender"
    by (auto simp add: may_guess_def split: option.splits)
  note h = HandleGuessEnhanced_compared [OF assms s m, of strings now guess]
  show "(HandleGuessEnhanced strings now player guess room = Inr (incorrect_guess_result player room))
          = (\<not> guess_matches strings guess (r_Word room))"
  proof (cases "guess_matches strings guess (r_Word room)")
    case False
    then show ?thesis using h incorrect_guess_path_locked [OF assms] by simp
  next
    case True
    have "HandleGuessEnhanced strings now player guess room \<noteq> Inr (incorrect_guess_result player room)"
    proof
      assume e: "HandleGuessEnhanced strings now player guess room = Inr (incorrect_guess_result player room)"
      with h True have "correct_guess_path now player sender (room\<lparr>r_Mu := True\<rparr>)
          = Inr (incorrect_guess_result player room)" by simp
      from correct_guess_path_guessers [OF this] show False by simp
    qed
    then show ?thesis using True by simp
  qed
next
  assume "\<not> may_guess player room"
  with assms show "HandleGuessEnhanced strings now player guess room = Inr room"
    by (rule HandleGuessEnhanced_ignored)
next
  assume a: "ascii_behaviour strings"
  have "is_ascii []" by (simp add: is_ascii_def)
  with a have "TrimSpace strings [] = []" "ToLower strings [] = []"
    by (simp_all add: ascii_behaviour_def TrimSpace_ascii_def ToLower_ascii_def)
  then show "\<not> guess_matches strings guess []"
    by (simp add: guess_matches_def)
next
  assume "ascii_behaviour strings \<and> is_ascii guess \<and> is_ascii (r_Word room)"
  then show "guess_matches strings guess (r_Word room) = matches_ascii guess (r_Word room)"
    by (simp add: guess_matches_ascii)
qed

text \<open>
  C10 as claimed fails for the drawer: while \<open>a\<close> chooses a word the word is empty, and a
  guess sent by \<open>a\<close> does not take the incorrect-guess path but is ignored (no guess is
  counted, no \<open>guess_message\<close> goes out); the same guess sent by \<open>b\<close> takes that path.
\<close>

theorem C10_drawer_guess_ignored_counterexample:
  "r_Word selection_room = []
   \<and> HandleGuessEnhanced ascii_strings 1 ''a'' ''dog'' selection_room = Inr selection_room
   \<and> HandleGuessEnhanced ascii_strings 1 ''a'' ''dog'' selection_room
        \<noteq> Inr (incorrect_guess_result ''a'' selection_room)
   \<and> HandleGuessEnhanced ascii_strings 1 ''b'' ''dog'' selection_room
        = Inr (incorrect_guess_result ''b'' selection_room)"
  by code_simp

text \<open>
  C10 at the room where \<open>a\<close> draws \<open>cat\<close>, for guesses of ASCII bytes: \<open>b\<close>'s guess of
  \<open>CAT\<close> between blanks and of \<open>cAt\<close> before a line end match, \<open>b\<close>'s guesses \<open>dog\<close> and
  \<open>c at\<close> do not, and the drawer's own guess is ignored.
\<close>

theorem C10_guess_matching_witness:
  "\<not> r_Mu drawing_room \<and> ascii_behaviour ascii_strings
   \<and> may_guess ''b'' drawing_room \<and> \<not> may_guess ''a'' drawing_room
   \<and> is_ascii (r_Word drawing_room) \<and> is_ascii ''  CAT '' \<and> is_ascii ''dog''
   \<and> matches_ascii ''  CAT '' (r_Word drawing_room)
   \<and> matches_ascii (''cAt'' @ [CHR 0x0D, CHR 0x0A]) (r_Word drawing_room)
   \<and> \<not> matches_ascii ''dog'' (r_Word drawing_room)
   \<and> \<not> matches_ascii ''c at'' (r_Word drawing_room)
   \<and> guess_matches ascii_strings ''  CAT '' (r_Word drawing_room)
   \<and> \<not> guess_matches ascii_strings ''dog'' (r_Word drawing_room)
   \<and> \<not> guess_matches ascii_strings ''dog'' []
   \<and> HandleGuessEnhanced ascii_strings 5 ''b'' ''  CAT '' drawing_room
        \<noteq> Inr (incorrect_guess_result ''b'' drawing_room)
   \<and> HandleGuessEnhanced ascii_strings 5 ''b'' ''dog'' drawing_room
        = Inr (incorrect_guess_result ''b'' drawing_room)
   \<and> HandleGuessEnhanced ascii_strings 5 ''a'' ''cat'' drawing_room = Inr drawing_room"
proof -
  have f: "\<not> r_Mu drawing_room" by (simp add: drawing_room_def selection_room_def)
  have b: "ascii_behaviour ascii_strings" by (rule ascii_behaviour_ascii_strings)
  have m: "may_guess ''b'' drawing_room" "\<not> may_guess ''a'' drawing_room"
    by (simp_all add: drawing_room_def selection_room_def may_guess_def player_of_def)
  have a: "is_ascii (r_Word drawing_room)" "is_ascii ''  CAT ''" "is_ascii ''dog''"
    by code_simp+
  have g: "matches_ascii ''  CAT '' (r_Word drawing_room)"
    "matches_ascii (''cAt'' @ [CHR 0x0D, CHR 0x0A]) (r_Word drawing_room)"
    "\<not> matches_ascii ''dog'' (r_Word drawing_room)"
    "\<not> matches_ascii ''c at'' (r_Word drawing_room)"
    by code_simp+
  show ?thesis
    using f b m a g
      C10_guess_matching [OF f, of "''b''" ascii_strings 5 "''  CAT ''"]
      C10_guess_matching [OF f, of "''b''" ascii_strings 5 "''dog''"]
      C10_guess_matching [OF f, of "''a''" ascii_strings 5 "''cat''"]
    by blast
qed

subsection \<open>Normalising coordinates\<close>

text \<open>
  Rounding to a binary floating-point format moves a positive rational by at most a relative
  \<open>2 powi (- p)\<close>, keeps zero and keeps the sign.
\<close>

lemma round_half_even_error: "\<bar>of_int (round_half_even m) - m\<bar> \<le> (1 / 2 :: rat)"
proof -
  define f where "f = m - of_int \<lfloor>m\<rfloor>"
  have f: "0 \<le> f" "f < 1" unfolding f_def by linarith+
  have m: "m = of_int \<lfloor>m\<rfloor> + f" by (simp add: f_def)
  have "round_half_even m = \<lfloor>m\<rfloor> \<and> f \<le> 1 / 2 \<or> round_half_even m = \<lfloor>m\<rfloor> + 1 \<and> 1 / 2 \<le> f"
    unfolding round_half_even_def Let_def f_def [symmetric] by auto
  then show ?thesis
  proof
    assume a: "round_half_even m = \<lfloor>m\<rfloor> \<and> f \<le> 1 / 2"
    then have "of_int (round_half_even m) - m = - f" using m by simp
    then show ?thesis using a f by simp
  next
    assume a: "round_half_even m = \<lfloor>m\<rfloor> + 1 \<and> 1 / 2 \<le> f"
    then have "of_int (round_half_even m) - m = 1 - f" using m by simp
    then show ?thesis using a f by simp
  qed
qed

lemma round_half_even_nonneg: "0 \<le> m \<Longrightarrow> 0 \<le> round_half_even m"
  by (auto simp add: round_half_even_def Let_def)

lemma ilog2_lower:
  assumes "0 < q"
  shows "2 powi (ilog2 q) \<le> q"
proof (cases "1 \<le> q")
  case True
  then have pos: "0 < \<lfloor>q\<rfloor>" by linarith
  from bitlen_bounds [OF pos] have b: "2 ^ nat (bitlen \<lfloor>q\<rfloor> - 1) \<le> \<lfloor>q\<rfloor>" by simp
  have ge: "1 \<le> bitlen \<lfloor>q\<rfloor>" using pos by (simp add: bitlen_alt_def)
  have "(2 :: rat) powi (bitlen \<lfloor>q\<rfloor> - 1) = 2 ^ nat (bitlen \<lfloor>q\<rfloor> - 1)"
    using ge by (simp add: power_int_def)
  also have "\<dots> = of_int (2 ^ nat (bitlen \<lfloor>q\<rfloor> - 1))" by simp
  also have "\<dots> \<le> of_int \<lfloor>q\<rfloor>" using b by (simp only: of_int_le_iff)
  also have "\<dots> \<le> q" by simp
  finally show ?thesis using True by (simp add: ilog2_def)
next
  case False
  then have q1: "q < 1" by simp
  define r where "r = 1 / q"
  have r1: "1 < r" using assms q1 by (simp add: r_def)
  then have pos: "0 < \<lfloor>r\<rfloor>" by linarith
  define k where "k = bitlen \<lfloor>r\<rfloor> - 1"
  have ge: "0 \<le> k" using pos by (simp add: k_def bitlen_alt_def)
  from bitlen_bounds [OF pos] have "\<lfloor>r\<rfloor> < 2 ^ nat (bitlen \<lfloor>r\<rfloor>)" by simp
  moreover have "nat (bitlen \<lfloor>r\<rfloor>) = Suc (nat k)" using ge by (simp add: k_def)
  ultimately have "\<lfloor>r\<rfloor> < 2 ^ Suc (nat k)" by simp
  then have "r < of_int (2 ^ Suc (nat k))" by (simp only: floor_less_iff)
  then have up: "r < 2 ^ Suc (nat k)" by simp
  show ?thesis
  proof (cases "q * 2 ^ nat k = 1")
    case True
    then have "ilog2 q = - k" using q1 by (simp add: ilog2_def k_def r_def Let_def)
    moreover have "(2 :: rat) powi (- k) = 1 / 2 ^ nat k"
      using ge by (simp add: power_int_def field_simps)
    moreover have "1 / 2 ^ nat k = q" using True by (simp add: field_simps)
    ultimately show ?thesis by simp
  next
    case F2: False
    then have "ilog2 q = - k - 1" using q1 by (simp add: ilog2_def k_def r_def Let_def)
    moreover have "(2 :: rat) powi (- k - 1) = 1 / 2 ^ Suc (nat k)"
    proof -
      have eq: "- k - 1 = - int (Suc (nat k))" using ge by simp
      have "(2 :: rat) powi (- k - 1) = 2 powi (- int (Suc (nat k)))"
        by (rule arg_cong [OF eq])
      also have "\<dots> = inverse (2 ^ Suc (nat k))" by (simp only: power_int_minus power_int_of_nat)
      finally show ?thesis by (simp add: field_simps)
    qed
    moreover have "1 / 2 ^ Suc (nat k) \<le> q"
    proof -
      have "1 / q < 2 ^ Suc (nat k)" using up by (simp add: r_def)
      then have "1 < q * 2 ^ Suc (nat k)" using assms by (simp add: field_simps)
      then show ?thesis by (simp add: field_simps)
    qed
    ultimately show ?thesis by simp
  qed
qed

lemma rne_error:
  assumes "0 < q" "1 \<le> p"
  shows "\<bar>rne p q - q\<bar> \<le> q * 2 powi (- int p)"
proof -
  define u :: rat where "u = 2 powi (ilog2 q - int p + 1)"
  have u0: "0 < u" by (simp add: u_def)
  have r: "rne p q = of_int (round_half_even (q / u)) * u"
    using assms by (simp add: rne_def Let_def u_def)
  have "\<bar>rne p q - q\<bar> = \<bar>of_int (round_half_even (q / u)) - q / u\<bar> * u"
  proof -
    have "rne p q - q = (of_int (round_half_even (q / u)) - q / u) * u"
      using u0 by (simp add: r field_simps)
    then show ?thesis using u0 by (simp add: abs_mult)
  qed
  also have "\<dots> \<le> (1 / 2) * u"
    using round_half_even_error [of "q / u"] u0 by (intro mult_right_mono) simp_all
  also have "(1 / 2) * u = 2 powi (ilog2 q) * 2 powi (- int p)"
  proof -
    have eq: "ilog2 q - int p + 1 = ilog2 q + (- int p + 1)" by simp
    have "u = 2 powi (ilog2 q + (- int p + 1))"
      unfolding u_def by (rule arg_cong [OF eq])
    also have "\<dots> = 2 powi (ilog2 q) * 2 powi (- int p + 1)"
      by (rule power_int_add) simp
    also have "(2 :: rat) powi (- int p + 1) = 2 powi (- int p) * 2 powi 1"
      by (rule power_int_add) simp
    finally show ?thesis by simp
  qed
  also have "\<dots> \<le> q * 2 powi (- int p)"
    using ilog2_lower [OF assms(1)] by (intro mult_right_mono) simp_all
  finally show ?thesis .
qed


lemma rne_zero [simp]: "rne p 0 = 0"
  by (simp add: rne_def)

lemma rne_nonneg: "0 \<le> q \<Longrightarrow> 0 \<le> rne p q"
  by (auto simp add: rne_def Let_def intro!: mult_nonneg_nonneg round_half_even_nonneg)

lemma rne_nonpos: "q \<le> 0 \<Longrightarrow> rne p q \<le> 0"
proof (cases "q = 0")
  case True
  then show ?thesis by simp
next
  case False
  assume "q \<le> 0"
  with False have neg: "q < 0" by simp
  define u :: rat where "u = 2 powi (ilog2 \<bar>q\<bar> - int p + 1)"
  have u0: "0 < u" by (simp add: u_def)
  have "0 \<le> of_int (round_half_even (\<bar>q\<bar> / u)) * u"
    using u0 by (intro mult_nonneg_nonneg) (simp_all add: round_half_even_nonneg)
  moreover have "rne p q = - (of_int (round_half_even (\<bar>q\<bar> / u)) * u)"
    using neg by (simp add: rne_def Let_def u_def)
  ultimately show ?thesis by simp
qed

lemma f64_zero [simp]: "f64 0 = 0"
  by (simp add: f64_def)

lemma f64_nonneg: "0 \<le> q \<Longrightarrow> 0 \<le> f64 q"
  by (simp add: f64_def rne_nonneg)

lemma f64_nonpos: "q \<le> 0 \<Longrightarrow> f64 q \<le> 0"
  by (simp add: f64_def rne_nonpos)

lemma f64_bounds:
  assumes "0 \<le> q"
  shows "q * (99999 / 100000) \<le> f64 q" and "f64 q \<le> q * (100001 / 100000)"
proof -
  have e: "(2 :: rat) powi (- int 53) \<le> 1 / 100000"
    by (simp add: power_int_minus)
  have b: "\<bar>f64 q - q\<bar> \<le> q * (1 / 100000)"
  proof (cases "q = 0")
    case True
    then show ?thesis by simp
  next
    case False
    with assms have pos: "0 < q" by simp
    from rne_error [OF pos, of 53] have "\<bar>f64 q - q\<bar> \<le> q * 2 powi (- int 53)"
      by (simp add: f64_def)
    also have "\<dots> \<le> q * (1 / 100000)"
      using e assms by (rule mult_left_mono)
    finally show ?thesis .
  qed
  from b have "q - f64 q \<le> q * (1 / 100000)" "f64 q - q \<le> q * (1 / 100000)"
    by (simp_all only: abs_le_iff minus_diff_eq)
  then show "q * (99999 / 100000) \<le> f64 q" "f64 q \<le> q * (100001 / 100000)"
    by simp_all
qed

lemma float_to_int_nonpos: "v \<le> 0 \<Longrightarrow> float_to_int v \<le> 0"
  by (auto simp add: float_to_int_def Let_def int64_min_def)

lemma float_to_int_floor:
  "0 \<le> z \<Longrightarrow> z < 2 ^ 63 \<Longrightarrow> float_to_int (of_int z) = z"
  by (simp add: float_to_int_def Let_def int64_min_def)

lemma scale_zero: "scale_to_grid 0 cells client \<le> 0"
  by (simp add: scale_to_grid_def Let_def int64_min_def float_to_int_def)

lemma scale_negative:
  assumes "x < 0" "0 \<le> cells" "0 \<le> client"
  shows "scale_to_grid x cells client \<le> 0"
proof (cases "f64 (of_int client) = 0")
  case True
  then show ?thesis by (simp add: scale_to_grid_def int64_min_def)
next
  case False
  have fx: "f64 (of_int x) \<le> 0" using assms(1) by (intro f64_nonpos) simp
  have fs: "0 \<le> f64 (of_int cells)" using assms(2) by (intro f64_nonneg) simp
  have fc: "0 \<le> f64 (of_int client)" using assms(3) by (intro f64_nonneg) simp
  have "f64 (of_int x) * f64 (of_int cells) \<le> 0"
    using fx fs by (rule mult_nonpos_nonneg)
  then have "f64 (f64 (of_int x) * f64 (of_int cells)) \<le> 0" by (rule f64_nonpos)
  then have "f64 (f64 (of_int x) * f64 (of_int cells)) / f64 (of_int client) \<le> 0"
    using fc by (rule divide_nonpos_nonneg)
  then have "f64 (f64 (f64 (of_int x) * f64 (of_int cells)) / f64 (of_int client)) \<le> 0"
    by (rule f64_nonpos)
  then have "(of_int \<lfloor>f64 (f64 (f64 (of_int x) * f64 (of_int cells)) / f64 (of_int client))\<rfloor> :: rat) \<le> 0"
    by (simp add: floor_le_iff) 
  then have "float_to_int (of_int \<lfloor>f64 (f64 (f64 (of_int x) * f64 (of_int cells)) / f64 (of_int client))\<rfloor>) \<le> 0"
    by (rule float_to_int_nonpos)
  then show ?thesis using False by (simp add: scale_to_grid_def Let_def)
qed

lemma clamp_nonpos: "g \<le> 0 \<Longrightarrow> 0 < cells \<Longrightarrow> clamp_grid g cells = 0"
  by (simp add: clamp_grid_def)

text \<open>
  The three roundings of \<open>float64(x) * float64(cells) / float64(client)\<close> enclose the
  computed quotient between two rational bounds of the exact quotient.
\<close>

lemma scale_enclosure:
  fixes x cells client :: int
  defines "X \<equiv> (of_int x :: rat)" and "c \<equiv> (of_int client :: rat)" and "s \<equiv> (of_int cells :: rat)"
  assumes fs: "f64 s = s" and x: "0 \<le> x" and cells: "1 \<le> cells" and client: "1 \<le> client"
  obtains Q where "scale_to_grid x cells client = float_to_int (of_int \<lfloor>Q\<rfloor>)" and "0 \<le> Q"
    and "(99999 / 100000) * ((99999 / 100000) * ((99999 / 100000) * X * s) / ((100001 / 100000) * c)) \<le> Q"
    and "Q \<le> (100001 / 100000) * ((100001 / 100000) * ((100001 / 100000) * X * s) / ((99999 / 100000) * c))"
proof -
  define lo :: rat where "lo = 99999 / 100000"
  define hi :: rat where "hi = 100001 / 100000"
  define fx where "fx = f64 X"
  define fc where "fc = f64 c"
  define P where "P = f64 (fx * s)"
  define Q where "Q = f64 (P / fc)"
  have lo0: "0 < lo" and hi0: "0 < hi" by (simp_all add: lo_def hi_def)
  have bounds: "lo * q \<le> f64 q \<and> f64 q \<le> hi * q" if "0 \<le> q" for q
    using f64_bounds [OF that] by (simp only: lo_def hi_def mult.commute [of q])
  have c1: "1 \<le> c" using client by (simp add: c_def)
  have s0: "0 < s" using cells by (simp add: s_def)
  have x0: "0 \<le> X" using x by (simp add: X_def)
  have c0: "0 \<le> c" using c1 by simp
  have fx: "lo * X \<le> fx" "fx \<le> hi * X"
    using bounds [OF x0] by (simp_all only: fx_def)
  have fx0: "0 \<le> fx" unfolding fx_def using x0 by (rule f64_nonneg)
  have fc: "lo * c \<le> fc" "fc \<le> hi * c"
    using bounds [OF c0] by (simp_all only: fc_def)
  have loc: "0 < lo * c" using lo0 c1 by simp
  have fcpos: "0 < fc" using loc fc(1) by (rule less_le_trans)
  have p0: "0 \<le> fx * s" using fx0 s0 by simp
  have P: "lo * (fx * s) \<le> P" "P \<le> hi * (fx * s)"
    using bounds [OF p0] by (simp_all only: P_def)
  have P0: "0 \<le> P" unfolding P_def using p0 by (rule f64_nonneg)
  have Plo: "lo * (lo * X * s) \<le> P"
  proof -
    have "lo * X * s \<le> fx * s"
      using fx(1) s0 by (intro mult_right_mono) simp_all
    then have "lo * (lo * X * s) \<le> lo * (fx * s)"
      using lo0 by (intro mult_left_mono) simp_all
    then show ?thesis using P(1) by (rule order_trans)
  qed
  have Phi: "P \<le> hi * (hi * X * s)"
  proof -
    have "fx * s \<le> hi * X * s"
      using fx(2) s0 by (intro mult_right_mono) simp_all
    then have "hi * (fx * s) \<le> hi * (hi * X * s)"
      using hi0 by (intro mult_left_mono) simp_all
    with P(2) show ?thesis by (rule order_trans)
  qed
  have Dlo: "lo * (lo * X * s) / (hi * c) \<le> P / fc"
  proof (rule frac_le)
    show "0 \<le> P" by (rule P0)
    show "lo * (lo * X * s) \<le> P" by (rule Plo)
    show "0 < fc" by (rule fcpos)
    show "fc \<le> hi * c" by (rule fc(2))
  qed
  have Dhi: "P / fc \<le> hi * (hi * X * s) / (lo * c)"
  proof (rule frac_le)
    show "0 \<le> hi * (hi * X * s)" using x0 s0 hi0 by simp
    show "P \<le> hi * (hi * X * s)" by (rule Phi)
    show "0 < lo * c" by (rule loc)
    show "lo * c \<le> fc" by (rule fc(1))
  qed
  have D0: "0 \<le> P / fc" using P0 fcpos by simp
  have Q: "lo * (P / fc) \<le> Q" "Q \<le> hi * (P / fc)"
    using bounds [OF D0] by (simp_all only: Q_def)
  have Q0: "0 \<le> Q" unfolding Q_def using D0 by (rule f64_nonneg)
  have "lo * (lo * (lo * X * s) / (hi * c)) \<le> lo * (P / fc)"
    using Dlo lo0 by (intro mult_left_mono) simp_all
  then have Qlo: "lo * (lo * (lo * X * s) / (hi * c)) \<le> Q" using Q(1) by (rule order_trans)
  have "hi * (P / fc) \<le> hi * (hi * (hi * X * s) / (lo * c))"
    using Dhi hi0 by (intro mult_left_mono) simp_all
  with Q(2) have Qhi: "Q \<le> hi * (hi * (hi * X * s) / (lo * c))" by (rule order_trans)
  have fc_ne: "f64 (of_int client) \<noteq> 0" using fcpos by (simp add: fc_def c_def)
  have Qeq: "f64 (f64 (f64 (of_int x) * f64 (of_int cells)) / f64 (of_int client)) = Q"
    using fs by (simp only: Q_def P_def fx_def fc_def c_def s_def X_def)
  have "scale_to_grid x cells client = float_to_int (of_int \<lfloor>Q\<rfloor>)"
    unfolding scale_to_grid_def Let_def Qeq using fc_ne by (simp only: if_False)
  then show thesis
    using Q0 Qlo Qhi unfolding lo_def hi_def by (rule that)
qed

lemma scale_top:
  fixes cells client :: int
  defines "c \<equiv> (of_int client :: rat)" and "s \<equiv> (of_int cells :: rat)"
  assumes fs: "f64 s = s" and cells: "1 \<le> cells" "cells \<le> 35" and client: "cells < client"
    and L: "s - 1 \<le> (99999 / 100000) * ((99999 / 100000) * ((99999 / 100000) * (c - 1) * s) / ((100001 / 100000) * c))"
    and U: "(100001 / 100000) * ((100001 / 100000) * ((100001 / 100000) * (c - 1) * s) / ((99999 / 100000) * c)) < s + 1"
  shows "cells - 1 \<le> scale_to_grid (client - 1) cells client \<and> scale_to_grid (client - 1) cells client \<le> cells"
proof -
  have fs': "f64 (of_int cells) = of_int cells" using fs by (simp only: s_def)
  have x: "0 \<le> client - 1" and cl: "1 \<le> client" using cells client by simp_all
  from fs' x cells(1) cl obtain Q :: rat
    where eq: "scale_to_grid (client - 1) cells client = float_to_int (of_int \<lfloor>Q\<rfloor>)"
      and lo: "(99999 / 100000) * ((99999 / 100000) * ((99999 / 100000) * of_int (client - 1) * of_int cells) / ((100001 / 100000) * of_int client)) \<le> Q"
      and hi: "Q \<le> (100001 / 100000) * ((100001 / 100000) * ((100001 / 100000) * of_int (client - 1) * of_int cells) / ((99999 / 100000) * of_int client))"
    by (rule scale_enclosure) blast
  have Qlo: "s - 1 \<le> Q"
    using L lo unfolding c_def s_def of_int_diff of_int_1 by (rule order_trans)
  have Qhi: "Q < s + 1"
    using hi U unfolding c_def s_def of_int_diff of_int_1 by (rule le_less_trans)
  have "of_int (cells - 1) \<le> Q" using Qlo by (simp only: s_def of_int_diff of_int_1)
  then have f1: "cells - 1 \<le> \<lfloor>Q\<rfloor>" by (simp only: le_floor_iff)
  have "Q < of_int (cells + 1)" using Qhi by (simp only: s_def of_int_add of_int_1)
  then have "\<lfloor>Q\<rfloor> < cells + 1" by (simp only: floor_less_iff)
  then have f2: "\<lfloor>Q\<rfloor> \<le> cells" by simp
  have "float_to_int (of_int \<lfloor>Q\<rfloor>) = \<lfloor>Q\<rfloor>"
  proof (rule float_to_int_floor)
    show "0 \<le> \<lfloor>Q\<rfloor>" using f1 cells by linarith
    have "\<lfloor>Q\<rfloor> \<le> 35" using f2 cells by linarith
    also have "(35 :: int) < 2 ^ 63" by simp
    finally show "\<lfloor>Q\<rfloor> < 2 ^ 63" .
  qed
  with eq have "scale_to_grid (client - 1) cells client = \<lfloor>Q\<rfloor>" by (rule trans)
  with f1 f2 show ?thesis by (simp only: simp_thms)
qed

lemma scale_below:
  fixes cells client :: int
  defines "c \<equiv> (of_int client :: rat)" and "s \<equiv> (of_int cells :: rat)"
  assumes fs: "f64 s = s" and cells: "1 \<le> cells" "cells \<le> 35" and client: "1 \<le> client"
    and U: "(100001 / 100000) * ((100001 / 100000) * ((100001 / 100000) * (c - 1) * s) / ((99999 / 100000) * c)) < s - 1"
  shows "scale_to_grid (client - 1) cells client < cells - 1"
proof -
  have fs': "f64 (of_int cells) = of_int cells" using fs by (simp only: s_def)
  have x: "0 \<le> client - 1" using client by simp
  from fs' x cells(1) client obtain Q :: rat
    where eq: "scale_to_grid (client - 1) cells client = float_to_int (of_int \<lfloor>Q\<rfloor>)"
      and Q0: "0 \<le> Q"
      and hi: "Q \<le> (100001 / 100000) * ((100001 / 100000) * ((100001 / 100000) * of_int (client - 1) * of_int cells) / ((99999 / 100000) * of_int client))"
    by (rule scale_enclosure) blast
  have Qhi: "Q < s - 1"
    using hi U unfolding c_def s_def of_int_diff of_int_1 by (rule le_less_trans)
  then have "Q < of_int (cells - 1)" by (simp only: s_def of_int_diff of_int_1)
  then have f2: "\<lfloor>Q\<rfloor> < cells - 1" by (simp only: floor_less_iff)
  have f1: "0 \<le> \<lfloor>Q\<rfloor>" using Q0 by simp
  have "float_to_int (of_int \<lfloor>Q\<rfloor>) = \<lfloor>Q\<rfloor>"
  proof (rule float_to_int_floor)
    show "0 \<le> \<lfloor>Q\<rfloor>" by (rule f1)
    have "\<lfloor>Q\<rfloor> \<le> 35" using f2 cells by linarith
    also have "(35 :: int) < 2 ^ 63" by simp
    finally show "\<lfloor>Q\<rfloor> < 2 ^ 63" .
  qed
  with eq have "scale_to_grid (client - 1) cells client = \<lfloor>Q\<rfloor>" by (rule trans)
  with f2 show ?thesis by (simp only:)
qed

lemma f64_35: "f64 35 = 35" and f64_20: "f64 20 = 20"
  by code_simp+

lemma clamp_top: "cells - 1 \<le> g \<Longrightarrow> g \<le> cells \<Longrightarrow> 0 < cells \<Longrightarrow> clamp_grid g cells = cells - 1"
  by (auto simp add: clamp_grid_def)

lemma top_width:
  assumes "35 \<le> client"
  shows "clamp_grid (scale_to_grid (client - 1) CanvasWidth client) CanvasWidth = 34"
proof (cases "client = 35")
  case True
  then show ?thesis by (simp add: CanvasWidth_def) code_simp
next
  case False
  with assms have c: "36 \<le> (of_int client :: rat)" by simp
  have "35 - 1 \<le> scale_to_grid (client - 1) 35 client \<and> scale_to_grid (client - 1) 35 client \<le> 35"
  proof (rule scale_top)
    show "f64 (of_int 35) = of_int 35" using f64_35 by simp
    show "(1 :: int) \<le> 35" "(35 :: int) \<le> 35" by simp_all
    show "35 < client" using assms False by simp
    show "of_int 35 - 1 \<le> (99999 / 100000) * ((99999 / 100000) * ((99999 / 100000) * (of_int client - 1) * of_int 35) / ((100001 / 100000) * (of_int client :: rat)))"
      using c by (simp add: field_simps)
    show "(100001 / 100000) * ((100001 / 100000) * ((100001 / 100000) * (of_int client - 1) * of_int 35) / ((99999 / 100000) * (of_int client :: rat))) < of_int 35 + 1"
      using c by (simp add: field_simps)
  qed
  then show ?thesis by (simp add: CanvasWidth_def clamp_top)
qed

lemma top_height:
  assumes "20 \<le> client"
  shows "clamp_grid (scale_to_grid (client - 1) CanvasHeight client) CanvasHeight = 19"
proof (cases "client = 20")
  case True
  then show ?thesis by (simp add: CanvasHeight_def) code_simp
next
  case False
  with assms have c: "21 \<le> (of_int client :: rat)" by simp
  have "20 - 1 \<le> scale_to_grid (client - 1) 20 client \<and> scale_to_grid (client - 1) 20 client \<le> 20"
  proof (rule scale_top)
    show "f64 (of_int 20) = of_int 20" using f64_20 by simp
    show "(1 :: int) \<le> 20" "(20 :: int) \<le> 35" by simp_all
    show "20 < client" using assms False by simp
    show "of_int 20 - 1 \<le> (99999 / 100000) * ((99999 / 100000) * ((99999 / 100000) * (of_int client - 1) * of_int 20) / ((100001 / 100000) * (of_int client :: rat)))"
      using c by (simp add: field_simps)
    show "(100001 / 100000) * ((100001 / 100000) * ((100001 / 100000) * (of_int client - 1) * of_int 20) / ((99999 / 100000) * (of_int client :: rat))) < of_int 20 + 1"
      using c by (simp add: field_simps)
  qed
  then show ?thesis by (simp add: CanvasHeight_def clamp_top)
qed

lemma clamp_below: "g < cells - 1 \<Longrightarrow> 1 < cells \<Longrightarrow> clamp_grid g cells < cells - 1"
  by (auto simp add: clamp_grid_def)

lemma below_top_width:
  assumes "1 \<le> client" and "client < 35"
  shows "clamp_grid (scale_to_grid (client - 1) CanvasWidth client) CanvasWidth < 34"
proof -
  from assms have c: "1 \<le> (of_int client :: rat)" "(of_int client :: rat) \<le> 34" by simp_all
  have "scale_to_grid (client - 1) 35 client < 35 - 1"
  proof (rule scale_below)
    show "f64 (of_int 35) = of_int 35" using f64_35 by simp
    show "(1 :: int) \<le> 35" "(35 :: int) \<le> 35" by simp_all
    show "1 \<le> client" by (rule assms)
    show "(100001 / 100000) * ((100001 / 100000) * ((100001 / 100000) * (of_int client - 1) * of_int 35) / ((99999 / 100000) * (of_int client :: rat))) < of_int 35 - 1"
      using c by (simp add: field_simps)
  qed
  then have "clamp_grid (scale_to_grid (client - 1) 35 client) 35 < 35 - 1"
    by (rule clamp_below) simp
  then show ?thesis by (simp add: CanvasWidth_def)
qed

lemma below_top_height:
  assumes "1 \<le> client" and "client < 20"
  shows "clamp_grid (scale_to_grid (client - 1) CanvasHeight client) CanvasHeight < 19"
proof -
  from assms have c: "1 \<le> (of_int client :: rat)" "(of_int client :: rat) \<le> 19" by simp_all
  have "scale_to_grid (client - 1) 20 client < 20 - 1"
  proof (rule scale_below)
    show "f64 (of_int 20) = of_int 20" using f64_20 by simp
    show "(1 :: int) \<le> 20" "(20 :: int) \<le> 35" by simp_all
    show "1 \<le> client" by (rule assms)
    show "(100001 / 100000) * ((100001 / 100000) * ((100001 / 100000) * (of_int client - 1) * of_int 20) / ((99999 / 100000) * (of_int client :: rat))) < of_int 20 - 1"
      using c by (simp add: field_simps)
  qed
  then have "clamp_grid (scale_to_grid (client - 1) 20 client) 20 < 20 - 1"
    by (rule clamp_below) simp
  then show ?thesis by (simp add: CanvasHeight_def)
qed

lemma NormalizeCoordinates_components:
  "NormalizeCoordinates x y cW cH =
     (clamp_grid (scale_to_grid x CanvasWidth cW) CanvasWidth,
      clamp_grid (scale_to_grid y CanvasHeight cH) CanvasHeight)"
  by (simp add: NormalizeCoordinates_def Let_def)

text \<open>
  Claim C7, amended. For all client dimensions \<open>cW \<ge> 1\<close> and \<open>cH \<ge> 1\<close>:
  \<open>NormalizeCoordinates\<close> sends the client's last column \<open>cW - 1\<close> to the grid's last
  column \<open>34\<close> exactly when \<open>cW \<ge> 35\<close>, and the client's last row \<open>cH - 1\<close> to the
  grid's last row \<open>19\<close> exactly when \<open>cH \<ge> 20\<close>; it sends \<open>(0, 0)\<close> to \<open>(0, 0)\<close>; and a
  negative input coordinate is clamped to \<open>0\<close>.
\<close>

theorem C7_NormalizeCoordinates_corners:
  assumes "1 \<le> cW" and "1 \<le> cH"
  shows "(fst (NormalizeCoordinates (cW - 1) y cW cH) = 34 \<longleftrightarrow> 35 \<le> cW)
       \<and> (snd (NormalizeCoordinates x (cH - 1) cW cH) = 19 \<longleftrightarrow> 20 \<le> cH)
       \<and> NormalizeCoordinates 0 0 cW cH = (0, 0)
       \<and> (x < 0 \<longrightarrow> fst (NormalizeCoordinates x y cW cH) = 0)
       \<and> (y < 0 \<longrightarrow> snd (NormalizeCoordinates x y cW cH) = 0)"
proof -
  have w: "clamp_grid (scale_to_grid (cW - 1) CanvasWidth cW) CanvasWidth = 34 \<longleftrightarrow> 35 \<le> cW"
  proof (cases "35 \<le> cW")
    case True
    then show ?thesis by (simp add: top_width)
  next
    case False
    with assms have "clamp_grid (scale_to_grid (cW - 1) CanvasWidth cW) CanvasWidth < 34"
      by (intro below_top_width) simp_all
    with False show ?thesis by simp
  qed
  have h: "clamp_grid (scale_to_grid (cH - 1) CanvasHeight cH) CanvasHeight = 19 \<longleftrightarrow> 20 \<le> cH"
  proof (cases "20 \<le> cH")
    case True
    then show ?thesis by (simp add: top_height)
  next
    case False
    with assms have "clamp_grid (scale_to_grid (cH - 1) CanvasHeight cH) CanvasHeight < 19"
      by (intro below_top_height) simp_all
    with False show ?thesis by simp
  qed
  have z: "clamp_grid (scale_to_grid 0 cells client) cells = 0" if "0 < cells" for cells client
    using scale_zero that by (rule clamp_nonpos)
  have n: "clamp_grid (scale_to_grid v cells client) cells = 0"
    if "v < 0" "0 < cells" "1 \<le> client" for v cells client
  proof (rule clamp_nonpos)
    show "scale_to_grid v cells client \<le> 0" using that by (intro scale_negative) simp_all
    show "0 < cells" by (rule that)
  qed
  have "NormalizeCoordinates 0 0 cW cH = (0, 0)"
    by (simp add: NormalizeCoordinates_components z CanvasWidth_def CanvasHeight_def)
  moreover have "x < 0 \<longrightarrow> fst (NormalizeCoordinates x y cW cH) = 0"
    using assms by (simp add: NormalizeCoordinates_components n CanvasWidth_def)
  moreover have "y < 0 \<longrightarrow> snd (NormalizeCoordinates x y cW cH) = 0"
    using assms by (simp add: NormalizeCoordinates_components n CanvasHeight_def)
  ultimately show ?thesis using w h by (simp add: NormalizeCoordinates_components)
qed

text \<open>
  Claim C7 as stated fails on a client canvas smaller than the grid: on a \<open>10 \<times> 10\<close> canvas
  the corner \<open>(9, 9)\<close> is sent to \<open>(31, 18)\<close>, and on a \<open>1 \<times> 1\<close> canvas the corner
  \<open>(0, 0)\<close> is sent to \<open>(0, 0)\<close>, not to \<open>(34, 19)\<close>.
\<close>

theorem C7_small_client_corner_counterexample:
  "NormalizeCoordinates (10 - 1) (10 - 1) 10 10 = (31, 18)
   \<and> NormalizeCoordinates (1 - 1) (1 - 1) 1 1 = (0, 0)"
  by code_simp

text \<open>C7 on a \<open>700 \<times> 400\<close> canvas.\<close>

theorem C7_NormalizeCoordinates_corners_witness:
  "(1 :: int) \<le> 700 \<and> (1 :: int) \<le> 400
   \<and> NormalizeCoordinates 699 399 700 400 = (34, 19)
   \<and> NormalizeCoordinates 0 0 700 400 = (0, 0)
   \<and> NormalizeCoordinates (- 5) (- 3) 700 400 = (0, 0)"
  using C7_NormalizeCoordinates_corners [of 700 400 399 699]
    C7_NormalizeCoordinates_corners [of 700 400 "- 3" "- 5"]
  by (simp add: prod_eq_iff)

end
